theory Spec2Isabelle
  imports Main "HOL-Library.Word" "HOL-Library.Char_ord" "HOL-Library.List_Lexorder"
begin

text \<open>
  A shallow embedding of the schema engine of the PostgreSQL schema visualizer
  (\<open>AltDbMigration\<close>): the identifier and type validation and the builder of
  \<open>ALTER TABLE ... ADD COLUMN\<close> statements (package \<open>schema\<close>), the introspector with
  its pool, database name and query timeout, the configured timeouts (package
  \<open>config\<close>), and the HTTP handlers that add a column and switch the database (package
  \<open>api\<close>). Functions keep their Go names; what Go leaves to the run-time system or to
  the database (the clock, the catalog, the answer of the pool) is a parameter.
\<close>

section \<open>Go strings, bytes and runes\<close>

text \<open>
  A Go string is a sequence of bytes: \<^typ>\<open>string\<close> (a list of 8-bit \<^typ>\<open>char\<close>),
  and \<open>len(s)\<close> is \<^term>\<open>length s\<close>. A \<open>for i, r := range s\<close> loop walks the
  string rune by rune: \<open>i\<close> is the byte index of the rune, \<open>r\<close> its code point,
  and a byte sequence that is not valid UTF-8 yields \<open>U+FFFD\<close> and advances one byte.
\<close>

type_synonym rune = int

definition RuneError :: rune where
  "RuneError = 65533"

definition byte :: "char \<Rightarrow> nat" where
  "byte c = of_char c"

definition rn :: "char \<Rightarrow> rune" where
  \<comment> \<open>the rune constant written as a character literal, \<open>'a'\<close>\<close>
  "rn c = int (byte c)"

definition dq :: char where
  \<comment> \<open>the double quote character\<close>
  "dq = CHR 0x22"

definition cont :: "char \<Rightarrow> bool" where
  \<comment> \<open>a UTF-8 continuation byte, \<open>0x80..0xBF\<close>\<close>
  "cont c = (128 \<le> byte c \<and> byte c \<le> 191)"

definition second3 :: "nat \<Rightarrow> char \<Rightarrow> bool" where
  \<comment> \<open>the second byte accepted after the lead byte of a three-byte sequence\<close>
  "second3 b0 c =
     (if b0 = 224 then 160 \<le> byte c \<and> byte c \<le> 191
      else if b0 = 237 then 128 \<le> byte c \<and> byte c \<le> 159
      else cont c)"

definition second4 :: "nat \<Rightarrow> char \<Rightarrow> bool" where
  \<comment> \<open>the second byte accepted after the lead byte of a four-byte sequence\<close>
  "second4 b0 c =
     (if b0 = 240 then 144 \<le> byte c \<and> byte c \<le> 191
      else if b0 = 244 then 128 \<le> byte c \<and> byte c \<le> 143
      else cont c)"

definition decode2 :: "nat \<Rightarrow> string \<Rightarrow> rune \<times> nat" where
  \<comment> \<open>lead byte \<open>0xC2..0xDF\<close>: a two-byte sequence\<close>
  "decode2 b0 s =
     (case s of
        c1 # _ \<Rightarrow>
          if cont c1 then (int ((b0 mod 32) * 64 + byte c1 mod 64), 2)
          else (RuneError, 1)
      | _ \<Rightarrow> (RuneError, 1))"

definition decode3 :: "nat \<Rightarrow> string \<Rightarrow> rune \<times> nat" where
  \<comment> \<open>lead byte \<open>0xE0..0xEF\<close>: a three-byte sequence\<close>
  "decode3 b0 s =
     (case s of
        c1 # c2 # _ \<Rightarrow>
          if second3 b0 c1 \<and> cont c2
          then (int ((b0 mod 16) * 4096 + (byte c1 mod 64) * 64 + byte c2 mod 64), 3)
          else (RuneError, 1)
      | _ \<Rightarrow> (RuneError, 1))"

definition decode4 :: "nat \<Rightarrow> string \<Rightarrow> rune \<times> nat" where
  \<comment> \<open>lead byte \<open>0xF0..0xF4\<close>: a four-byte sequence\<close>
  "decode4 b0 s =
     (case s of
        c1 # c2 # c3 # _ \<Rightarrow>
          if second4 b0 c1 \<and> cont c2 \<and> cont c3
          then (int ((b0 mod 8) * 262144 + (byte c1 mod 64) * 4096
                     + (byte c2 mod 64) * 64 + byte c3 mod 64), 4)
          else (RuneError, 1)
      | _ \<Rightarrow> (RuneError, 1))"

fun DecodeRuneInString :: "string \<Rightarrow> rune \<times> nat" where
  "DecodeRuneInString [] = (RuneError, 0)"
| "DecodeRuneInString (c0 # s) =
     (let b0 = byte c0 in
      if b0 < 128 then (int b0, 1)
      else if 194 \<le> b0 \<and> b0 \<le> 223 then decode2 b0 s
      else if 224 \<le> b0 \<and> b0 \<le> 239 then decode3 b0 s
      else if 240 \<le> b0 \<and> b0 \<le> 244 then decode4 b0 s
      else (RuneError, 1))"

lemma decode2_width: "0 < snd (decode2 b s)"
  by (simp add: decode2_def split: list.split)

lemma decode3_width: "0 < snd (decode3 b s)"
  by (simp add: decode3_def split: list.split)

lemma decode4_width: "0 < snd (decode4 b s)"
  by (simp add: decode4_def split: list.split)

lemma DecodeRuneInString_width: "s \<noteq> [] \<Longrightarrow> 0 < snd (DecodeRuneInString s)"
  by (cases s) (simp_all add: Let_def decode2_width decode3_width decode4_width)

lemma DecodeRuneInString_ascii:
  "byte c < 128 \<Longrightarrow> DecodeRuneInString (c # s) = (int (byte c), 1)"
  by (simp add: Let_def)

lemma mask_lead2: "192 \<le> b \<Longrightarrow> b < 224 \<Longrightarrow> b mod 32 = b - (192::nat)"
  by (rule mod_nat_eqI) auto

lemma mask_lead3: "224 \<le> b \<Longrightarrow> b < 240 \<Longrightarrow> b mod 16 = b - (224::nat)"
  by (rule mod_nat_eqI) auto

lemma mask_lead4: "240 \<le> b \<Longrightarrow> b < 248 \<Longrightarrow> b mod 8 = b - (240::nat)"
  by (rule mod_nat_eqI) auto

lemma mask_cont: "128 \<le> b \<Longrightarrow> b < 192 \<Longrightarrow> b mod 64 = b - (128::nat)"
  by (rule mod_nat_eqI) auto

lemma decode2_high:
  assumes "194 \<le> b" "b \<le> 223"
  shows "128 \<le> fst (decode2 b s)"
proof -
  from assms have "2 \<le> b mod 32"
    by (simp add: mask_lead2)
  then have "128 \<le> (b mod 32) * 64 + n" for n
    by linarith
  then show ?thesis
    by (simp add: decode2_def RuneError_def del: of_nat_add of_nat_mult split: list.split)
qed

lemma decode3_high:
  assumes "224 \<le> b" "b \<le> 239"
  shows "128 \<le> fst (decode3 b s)"
proof -
  have "128 \<le> (b mod 16) * 4096 + (byte c mod 64) * 64 + n"
    if "second3 b c" for c n
  proof (cases "b = 224")
    case True
    with that have "32 \<le> byte c mod 64"
      by (auto simp: second3_def mask_cont)
    then show ?thesis by linarith
  next
    case False
    with assms have "1 \<le> b mod 16"
      by (simp add: mask_lead3)
    then show ?thesis by linarith
  qed
  then show ?thesis
    by (simp add: decode3_def RuneError_def del: of_nat_add of_nat_mult split: list.split)
qed

lemma decode4_high:
  assumes "240 \<le> b" "b \<le> 244"
  shows "128 \<le> fst (decode4 b s)"
proof -
  have "128 \<le> (b mod 8) * 262144 + (byte c mod 64) * 4096 + m * 64 + n"
    if "second4 b c" for c m n
  proof (cases "b = 240")
    case True
    with that have "16 \<le> byte c mod 64"
      by (auto simp: second4_def mask_cont)
    then show ?thesis by linarith
  next
    case False
    with assms have "1 \<le> b mod 8"
      by (simp add: mask_lead4)
    then show ?thesis by linarith
  qed
  then show ?thesis
    by (simp add: decode4_def RuneError_def del: of_nat_add of_nat_mult split: list.split)
qed

lemma DecodeRuneInString_high:
  "128 \<le> byte c \<Longrightarrow> 128 \<le> fst (DecodeRuneInString (c # s))"
  by (simp add: Let_def decode2_high decode3_high decode4_high RuneError_def)


section \<open>Identifier validation\<close>

text \<open>
  \<open>ValidIdentifier\<close> (the exported validator the handlers call) and \<open>validIdentifier\<close>
  (the unexported copy of the earlier \<open>validate.go\<close>) have the same body: reject the
  empty string and a string of more than 63 bytes, then range over the runes; the rune at
  byte index 0 must be in \<open>a..z\<close> or \<open>_\<close>, every later one in \<open>a..z\<close>, \<open>0..9\<close> or
  \<open>_\<close>. The loop function below is the \<open>for i, r := range name\<close> statement, started
  at \<open>i = 0\<close> on the whole string.
\<close>

lemma range_step_shorter:
  assumes "s \<noteq> []" and "(r, w) = DecodeRuneInString s"
  shows "length s - w < length s"
proof -
  from assms(2) have "w = snd (DecodeRuneInString s)"
    by (metis snd_conv)
  with assms(1) have "0 < w"
    by (simp add: DecodeRuneInString_width)
  with assms(1) show ?thesis
    by simp
qed

function ValidIdentifier_range :: "nat \<Rightarrow> string \<Rightarrow> bool" where
  "ValidIdentifier_range i s =
     (if s = [] then True
      else
        (case DecodeRuneInString s of
           (r, w) \<Rightarrow>
             if i = 0 then
               (if \<not> ((rn CHR ''a'' \<le> r \<and> r \<le> rn CHR ''z'') \<or> r = rn CHR ''_'')
                then False
                else ValidIdentifier_range (i + w) (drop w s))
             else
               (if \<not> ((rn CHR ''a'' \<le> r \<and> r \<le> rn CHR ''z'')
                       \<or> (rn CHR ''0'' \<le> r \<and> r \<le> rn CHR ''9'') \<or> r = rn CHR ''_'')
                then False
                else ValidIdentifier_range (i + w) (drop w s))))"
  by pat_completeness auto
termination
proof (relation "measure (\<lambda>(i, s). length s)", goal_cases)
  case 1
  show ?case by simp
next
  case 2
  then show ?case by (simp add: range_step_shorter)
next
  case 3
  then show ?case by (simp add: range_step_shorter)
qed

declare ValidIdentifier_range.simps [simp del]

definition ValidIdentifier :: "string \<Rightarrow> bool" where
  "ValidIdentifier name =
     (if name = [] \<or> length name > 63 then False
      else ValidIdentifier_range 0 name)"

definition validIdentifier :: "string \<Rightarrow> bool" where
  \<comment> \<open>\<open>validate.go\<close>: the same statements under the unexported name\<close>
  "validIdentifier name =
     (if name = [] \<or> length name > 63 then False
      else ValidIdentifier_range 0 name)"

subsection \<open>The rule in the words of the specification\<close>

definition ident_start :: "char \<Rightarrow> bool" where
  \<comment> \<open>the character class \<open>[a-z_]\<close>\<close>
  "ident_start c = ((CHR ''a'' \<le> c \<and> c \<le> CHR ''z'') \<or> c = CHR ''_'')"

definition ident_char :: "char \<Rightarrow> bool" where
  \<comment> \<open>the character class \<open>[a-z0-9_]\<close>\<close>
  "ident_char c =
     ((CHR ''a'' \<le> c \<and> c \<le> CHR ''z'') \<or> (CHR ''0'' \<le> c \<and> c \<le> CHR ''9'') \<or> c = CHR ''_'')"

definition matches_identifier_pattern :: "string \<Rightarrow> bool" where
  \<comment> \<open>the whole string matches \<open>^[a-z_][a-z0-9_]*$\<close>\<close>
  "matches_identifier_pattern s =
     (case s of [] \<Rightarrow> False | c # cs \<Rightarrow> ident_start c \<and> list_all ident_char cs)"

lemma byte_underscore: "(c = CHR ''_'') = (byte c = 95)"
proof -
  have "byte (CHR ''_'') = 95"
    by (simp add: byte_def)
  then show ?thesis
    unfolding byte_def by (metis of_char_eq_iff)
qed

lemma ident_start_byte:
  "ident_start c = ((97 \<le> byte c \<and> byte c \<le> 122) \<or> byte c = 95)"
  by (simp add: ident_start_def less_eq_char_def byte_underscore) (simp add: byte_def)

lemma ident_char_byte:
  "ident_char c =
     ((97 \<le> byte c \<and> byte c \<le> 122) \<or> (48 \<le> byte c \<and> byte c \<le> 57) \<or> byte c = 95)"
  by (simp add: ident_char_def less_eq_char_def byte_underscore) (simp add: byte_def)

lemma rn_consts:
  "rn CHR ''a'' = 97" "rn CHR ''z'' = 122" "rn CHR ''0'' = 48" "rn CHR ''9'' = 57"
  "rn CHR ''_'' = 95"
  by (simp_all add: rn_def byte_def)

text \<open>One iteration of the loop: an ASCII byte is its own rune; any other lead byte
  decodes to a rune of at least 128, which both tests reject.\<close>

lemma range_step:
  "ValidIdentifier_range i (c # cs) =
     ((if i = 0 then ident_start c else ident_char c) \<and> ValidIdentifier_range (i + 1) cs)"
proof (cases "byte c < 128")
  case True
  then show ?thesis
    by (subst ValidIdentifier_range.simps)
       (auto simp: DecodeRuneInString_ascii rn_consts ident_start_byte ident_char_byte)
next
  case False
  then have hi: "128 \<le> fst (DecodeRuneInString (c # cs))"
    by (intro DecodeRuneInString_high) simp
  obtain r w where rw: "DecodeRuneInString (c # cs) = (r, w)"
    by (cases "DecodeRuneInString (c # cs)")
  with hi have "128 \<le> r"
    by simp
  with False rw show ?thesis
    by (subst ValidIdentifier_range.simps)
       (auto simp: rn_consts ident_start_byte ident_char_byte)
qed

lemma range_rest: "0 < i \<Longrightarrow> ValidIdentifier_range i s = list_all ident_char s"
proof (induction s arbitrary: i)
  case Nil
  show ?case
    by (subst ValidIdentifier_range.simps) simp
next
  case (Cons c cs)
  then show ?case
    by (simp add: range_step)
qed

lemma range_whole:
  "ValidIdentifier_range 0 s = (s = [] \<or> matches_identifier_pattern s)"
proof (cases s)
  case Nil
  then show ?thesis
    by (subst ValidIdentifier_range.simps) simp
next
  case (Cons c cs)
  then show ?thesis
    by (simp add: range_step range_rest matches_identifier_pattern_def)
qed

lemma ValidIdentifier_pattern:
  "ValidIdentifier s = (matches_identifier_pattern s \<and> length s \<le> 63)"
  by (auto simp: ValidIdentifier_def range_whole matches_identifier_pattern_def)

lemma ValidIdentifier_chars:
  "ValidIdentifier s \<Longrightarrow> s \<noteq> [] \<and> list_all ident_char s"
  by (cases s)
     (auto simp: ValidIdentifier_pattern matches_identifier_pattern_def ident_start_def
        ident_char_def)

text \<open>
  Claim C1. The identifier validator, under both of its names, returns true exactly for
  the strings that match \<open>^[a-z_][a-z0-9_]*$\<close> and are at most 63 bytes long; it
  returns false for every other string (an upper-case letter, white space, a quote, a
  semicolon, a byte outside ASCII, a bad first character, more than 63 bytes), and for
  the empty string.
\<close>

theorem ValidIdentifier_iff_pattern:
  "ValidIdentifier s = (matches_identifier_pattern s \<and> length s \<le> 63)
   \<and> validIdentifier s = (matches_identifier_pattern s \<and> length s \<le> 63)
   \<and> \<not> ValidIdentifier [] \<and> \<not> validIdentifier []"
  by (auto simp: ValidIdentifier_def validIdentifier_def range_whole
        matches_identifier_pattern_def)

theorem ValidIdentifier_iff_pattern_witness:
  "ValidIdentifier ''user_id2'' \<and> validIdentifier ''_tmp''
   \<and> \<not> ValidIdentifier ''Users'' \<and> \<not> ValidIdentifier ''a b'' \<and> \<not> ValidIdentifier ''a;b''
   \<and> \<not> ValidIdentifier [CHR ''a'', dq] \<and> \<not> ValidIdentifier ''9lives''
   \<and> \<not> validIdentifier [CHR ''a'', CHR 0xC3, CHR 0xA9]
   \<and> ValidIdentifier ''a23456789012345678901234567890123456789012345678901234567890123''
   \<and> \<not> ValidIdentifier ''a234567890123456789012345678901234567890123456789012345678901234''"
  using ValidIdentifier_iff_pattern [of "''user_id2''"]
    ValidIdentifier_iff_pattern [of "''_tmp''"]
    ValidIdentifier_iff_pattern [of "''Users''"]
    ValidIdentifier_iff_pattern [of "''a b''"]
    ValidIdentifier_iff_pattern [of "''a;b''"]
    ValidIdentifier_iff_pattern [of "[CHR ''a'', dq]"]
    ValidIdentifier_iff_pattern [of "''9lives''"]
    ValidIdentifier_iff_pattern [of "[CHR ''a'', CHR 0xC3, CHR 0xA9]"]
    ValidIdentifier_iff_pattern
      [of "''a23456789012345678901234567890123456789012345678901234567890123''"]
    ValidIdentifier_iff_pattern
      [of "''a234567890123456789012345678901234567890123456789012345678901234''"]
  by (simp add: matches_identifier_pattern_def ident_start_def ident_char_def
        less_eq_char_def dq_def)

section \<open>Column types and DDL statements\<close>

subsection \<open>The allow-list of column types\<close>

record TypeInfo =
  Name :: string
  Description :: string
  Category :: string

definition AllowedTypes :: "TypeInfo list" where
  "AllowedTypes =
    [\<lparr>TypeInfo.Name = ''text'', Description = ''Variable length string'', Category = ''String''\<rparr>,
     \<lparr>TypeInfo.Name = ''varchar'', Description = ''Variable length (limited)'', Category = ''String''\<rparr>,
     \<lparr>TypeInfo.Name = ''char'', Description = ''Fixed length'', Category = ''String''\<rparr>,
     \<lparr>TypeInfo.Name = ''smallint'', Description = ''16-bit integer'', Category = ''Numeric''\<rparr>,
     \<lparr>TypeInfo.Name = ''integer'', Description = ''32-bit integer'', Category = ''Numeric''\<rparr>,
     \<lparr>TypeInfo.Name = ''bigint'', Description = ''64-bit integer'', Category = ''Numeric''\<rparr>,
     \<lparr>TypeInfo.Name = ''numeric'', Description = ''Decimal number'', Category = ''Numeric''\<rparr>,
     \<lparr>TypeInfo.Name = ''real'', Description = ''32-bit floating point'', Category = ''Numeric''\<rparr>,
     \<lparr>TypeInfo.Name = ''double precision'', Description = ''64-bit floating point'',
        Category = ''Numeric''\<rparr>,
     \<lparr>TypeInfo.Name = ''serial'', Description = ''Auto-increment 32-bit'', Category = ''Serial''\<rparr>,
     \<lparr>TypeInfo.Name = ''bigserial'', Description = ''Auto-increment 64-bit'', Category = ''Serial''\<rparr>,
     \<lparr>TypeInfo.Name = ''boolean'', Description = ''true/false'', Category = ''Boolean''\<rparr>,
     \<lparr>TypeInfo.Name = ''date'', Description = ''Date only'', Category = ''Date/Time''\<rparr>,
     \<lparr>TypeInfo.Name = ''time'', Description = ''Time only'', Category = ''Date/Time''\<rparr>,
     \<lparr>TypeInfo.Name = ''timestamp'', Description = ''Date and time'', Category = ''Date/Time''\<rparr>,
     \<lparr>TypeInfo.Name = ''timestamptz'', Description = ''Timestamp with timezone'',
        Category = ''Date/Time''\<rparr>,
     \<lparr>TypeInfo.Name = ''uuid'', Description = ''UUID'', Category = ''UUID''\<rparr>,
     \<lparr>TypeInfo.Name = ''json'', Description = ''JSON data'', Category = ''JSON''\<rparr>,
     \<lparr>TypeInfo.Name = ''jsonb'', Description = ''Binary JSON data'', Category = ''JSON''\<rparr>,
     \<lparr>TypeInfo.Name = ''bytea'', Description = ''Binary data'', Category = ''Binary''\<rparr>]"

text \<open>\<open>buildAllowedTypesMap\<close>: the loop \<open>for _, t := range AllowedTypes { m[t.Name] = true }\<close>
  over an initially empty \<open>map[string]bool\<close>.\<close>

fun buildAllowedTypesMap_range :: "TypeInfo list \<Rightarrow> (string \<rightharpoonup> bool) \<Rightarrow> (string \<rightharpoonup> bool)" where
  "buildAllowedTypesMap_range [] m = m"
| "buildAllowedTypesMap_range (t # ts) m = buildAllowedTypesMap_range ts (m(TypeInfo.Name t \<mapsto> True))"

definition buildAllowedTypesMap :: "string \<rightharpoonup> bool" where
  "buildAllowedTypesMap = buildAllowedTypesMap_range AllowedTypes Map.empty"

definition allowedTypesMap :: "string \<rightharpoonup> bool" where
  "allowedTypesMap = buildAllowedTypesMap"

definition index_bool :: "(string \<rightharpoonup> bool) \<Rightarrow> string \<Rightarrow> bool" where
  \<comment> \<open>\<open>m[k]\<close> on a \<open>map[string]bool\<close>: the zero value \<open>false\<close> for a missing key\<close>
  "index_bool m k = (case m k of None \<Rightarrow> False | Some b \<Rightarrow> b)"

definition IsValidType :: "string \<Rightarrow> bool" where
  "IsValidType t = index_bool allowedTypesMap t"

subsection \<open>Errors of the engine\<close>

text \<open>The engine's errors are \<open>fmt.Errorf\<close> values; one constructor per message.\<close>

datatype error =
    InvalidTableName  \<comment> \<open>\<open>invalid table name\<close>\<close>
  | InvalidColumnName  \<comment> \<open>\<open>invalid column name: must be lowercase letters, ...\<close>\<close>
  | UnsupportedColumnType string  \<comment> \<open>\<open>unsupported column type %q\<close>\<close>
  | InvalidForeignKeyTableName  \<comment> \<open>\<open>invalid foreign key table name\<close>\<close>
  | InvalidForeignKeyColumnName  \<comment> \<open>\<open>invalid foreign key column name\<close>\<close>
  | DatabaseError string  \<comment> \<open>an error returned by the connection pool\<close>

text \<open>The error taxonomy of the specification: \<open>InvalidIdentifier\<close> and \<open>InvalidType\<close>.\<close>

fun is_InvalidIdentifier :: "error \<Rightarrow> bool" where
  "is_InvalidIdentifier InvalidTableName = True"
| "is_InvalidIdentifier InvalidColumnName = True"
| "is_InvalidIdentifier InvalidForeignKeyTableName = True"
| "is_InvalidIdentifier InvalidForeignKeyColumnName = True"
| "is_InvalidIdentifier _ = False"

fun is_InvalidType :: "error \<Rightarrow> bool" where
  "is_InvalidType (UnsupportedColumnType _) = True"
| "is_InvalidType _ = False"

subsection \<open>Quoting, type check and the statement builder\<close>

definition ReplaceAll_dq :: "string \<Rightarrow> string" where
  \<comment> \<open>\<open>strings.ReplaceAll(name, `"`, `""`)\<close>: every double quote is doubled\<close>
  "ReplaceAll_dq name = concat (map (\<lambda>c. if c = dq then [dq, dq] else [c]) name)"

definition sanitizeIdentifier :: "string \<Rightarrow> string" where
  "sanitizeIdentifier name = (let escaped = ReplaceAll_dq name in [dq] @ escaped @ [dq])"

definition sanitizeType :: "string \<Rightarrow> error + string" where
  "sanitizeType t = (if index_bool allowedTypesMap t then Inr t else Inl (UnsupportedColumnType t))"

fun Join :: "string list \<Rightarrow> string \<Rightarrow> string" where
  \<comment> \<open>\<open>strings.Join(elems, sep)\<close>\<close>
  "Join [] sep = []"
| "Join [x] sep = x"
| "Join (x # xs) sep = x @ sep @ Join xs sep"

record ColumnDef =
  Name :: string
  Type :: string
  NotNull :: bool
  PrimaryKey :: bool
  Unique :: bool
  ReferencesTable :: string
  ReferencesColumn :: string

definition BuildAddColumnDDL :: "string \<Rightarrow> ColumnDef \<Rightarrow> error + string" where
  "BuildAddColumnDDL tableName col =
     (if \<not> ValidIdentifier tableName then Inl InvalidTableName
      else if \<not> ValidIdentifier (ColumnDef.Name col) then Inl InvalidColumnName
      else
        let parts = [sanitizeIdentifier (ColumnDef.Name col)] in
        (case sanitizeType (Type col) of
           Inl err \<Rightarrow> Inl err
         | Inr safeType \<Rightarrow>
             let parts = parts @ [safeType];
                 parts = (if NotNull col then parts @ [''NOT NULL''] else parts);
                 parts = (if PrimaryKey col then parts @ [''PRIMARY KEY''] else parts);
                 parts = (if Unique col \<and> \<not> PrimaryKey col then parts @ [''UNIQUE''] else parts)
             in
               if ReferencesTable col \<noteq> [] \<and> ReferencesColumn col \<noteq> [] then
                 (if \<not> ValidIdentifier (ReferencesTable col) then Inl InvalidForeignKeyTableName
                  else if \<not> ValidIdentifier (ReferencesColumn col)
                  then Inl InvalidForeignKeyColumnName
                  else
                    let parts = parts @ [''REFERENCES '' @ sanitizeIdentifier (ReferencesTable col)
                          @ ''('' @ sanitizeIdentifier (ReferencesColumn col) @ '')'']
                    in Inr (''ALTER TABLE '' @ sanitizeIdentifier tableName @ '' ADD COLUMN ''
                          @ Join parts '' ''))
               else
                 Inr (''ALTER TABLE '' @ sanitizeIdentifier tableName @ '' ADD COLUMN ''
                      @ Join parts '' '')))"

subsection \<open>The engine's add-column operation\<close>

record ForeignKey =
  ColumnName :: string
  ReferencesTable :: string
  ReferencesColumn :: string

record AddColumnRequest =
  Name :: string
  Type :: string
  Nullable :: bool
  PrimaryKey :: bool
  Unique :: bool
  ForeignKey :: "ForeignKey option"  \<comment> \<open>a pointer: \<open>None\<close> is \<open>nil\<close>\<close>

definition AddColumn_col :: "AddColumnRequest \<Rightarrow> ColumnDef" where
  \<comment> \<open>the \<open>ColumnDef\<close> that \<open>AddColumn\<close> fills in from the request\<close>
  "AddColumn_col req =
     (let col = \<lparr>ColumnDef.Name = AddColumnRequest.Name req,
                 Type = AddColumnRequest.Type req,
                 NotNull = \<not> Nullable req,
                 PrimaryKey = AddColumnRequest.PrimaryKey req,
                 Unique = AddColumnRequest.Unique req,
                 ReferencesTable = [],
                 ReferencesColumn = []\<rparr>
      in case ForeignKey req of
           None \<Rightarrow> col
         | Some fk \<Rightarrow> col\<lparr>ColumnDef.ReferencesTable := ForeignKey.ReferencesTable fk,
                          ColumnDef.ReferencesColumn := ForeignKey.ReferencesColumn fk\<rparr>)"

text \<open>
  \<open>AddColumn\<close> builds the statement and, only when that succeeds, sends it to the pool.
  The pool is the parameter \<open>exec\<close> (the database's answer to a statement); the result is
  the returned error (\<open>None\<close> is \<open>nil\<close>) and the list of statements sent.
\<close>

definition AddColumn ::
  "(string \<Rightarrow> error option) \<Rightarrow> string \<Rightarrow> AddColumnRequest \<Rightarrow> error option \<times> string list" where
  "AddColumn exec tableName req =
     (let col = AddColumn_col req in
      case BuildAddColumnDDL tableName col of
        Inl err \<Rightarrow> (Some err, [])
      | Inr query \<Rightarrow> (exec query, [query]))"

subsection \<open>The HTTP handler of add-column\<close>

text \<open>The error codes of the handler package.\<close>

definition ErrInvalidRequest :: string where "ErrInvalidRequest = ''INVALID_REQUEST''"
definition ErrMissingField :: string where "ErrMissingField = ''MISSING_FIELD''"
definition ErrInvalidTableName :: string where "ErrInvalidTableName = ''INVALID_TABLE_NAME''"
definition ErrInvalidColName :: string where "ErrInvalidColName = ''INVALID_COLUMN_NAME''"
definition ErrDatabaseError :: string where "ErrDatabaseError = ''DATABASE_ERROR''"
definition ErrConnectionError :: string where "ErrConnectionError = ''CONNECTION_ERROR''"
definition ErrUnknownDatabase :: string where "ErrUnknownDatabase = ''UNKNOWN_DATABASE''"
definition ErrAddColumn :: string where "ErrAddColumn = ''ADD_COLUMN_ERROR''"

definition StatusBadRequest :: nat where "StatusBadRequest = 400"
definition StatusInternalServerError :: nat where "StatusInternalServerError = 500"

datatype response =
    RespondJSON string  \<comment> \<open>\<open>respondJSON\<close>, with the one string field of its payload\<close>
  | RespondError string string nat  \<comment> \<open>\<open>respondError\<close>: code, client message, status\<close>

definition validateIdentifier :: "string \<Rightarrow> string \<Rightarrow> string \<Rightarrow> response option" where
  \<comment> \<open>\<open>None\<close> is the result \<open>true\<close>; otherwise the error response already sent\<close>
  "validateIdentifier name fieldName errCode =
     (if name = [] then
        Some (RespondError ErrMissingField (fieldName @ '' is required'') StatusBadRequest)
      else if \<not> ValidIdentifier name then
        Some (RespondError errCode (''Invalid '' @ fieldName @ '' format'') StatusBadRequest)
      else None)"

text \<open>
  \<open>handleAddColumn\<close>: the path value \<open>tableName\<close>, the decoded body (\<open>None\<close> when the
  JSON does not decode) and the pool's \<open>exec\<close>; the result is the response and the
  statements sent to the database.
\<close>

definition handleAddColumn ::
  "(string \<Rightarrow> error option) \<Rightarrow> string \<Rightarrow> AddColumnRequest option \<Rightarrow> response \<times> string list" where
  "handleAddColumn exec tableName body =
     (case validateIdentifier tableName ''table name'' ErrInvalidTableName of
        Some r \<Rightarrow> (r, [])
      | None \<Rightarrow>
          (case body of
             None \<Rightarrow> (RespondError ErrInvalidRequest ''Invalid request body'' StatusBadRequest, [])
           | Some req \<Rightarrow>
               if AddColumnRequest.Name req = [] then
                 (RespondError ErrMissingField ''Column name is required'' StatusBadRequest, [])
               else if \<not> ValidIdentifier (AddColumnRequest.Name req) then
                 (RespondError ErrInvalidColName ''Invalid column name format'' StatusBadRequest, [])
               else if AddColumnRequest.Type req = [] then
                 (RespondError ErrMissingField ''Column type is required'' StatusBadRequest, [])
               else if \<not> IsValidType (AddColumnRequest.Type req) then
                 (RespondError ErrInvalidRequest ''Invalid column type'' StatusBadRequest, [])
               else
                 (case AddColumn exec tableName req of
                    (Some err, sent) \<Rightarrow>
                      (RespondError ErrAddColumn ''Failed to add column''
                         StatusInternalServerError, sent)
                  | (None, sent) \<Rightarrow> (RespondJSON (AddColumnRequest.Name req), sent))))"

subsection \<open>The earlier add-column of \<open>validate.go\<close> and \<open>models.go\<close>\<close>

text \<open>
  The repository also holds the earlier form of the operation: \<open>sanitizeType\<close> of
  \<open>validate.go\<close> returns a string and no error, and \<open>AddColumn\<close> of \<open>models.go\<close>
  concatenates the statement itself. Both are embedded under the suffix \<open>_legacy\<close>; the
  handlers above call the builder of the previous subsection.
\<close>

definition sanitizeType_legacy :: "string \<Rightarrow> string" where
  "sanitizeType_legacy t =
     (let allowed = [''text'' \<mapsto> ''text'', ''date'' \<mapsto> ''date'', ''numeric'' \<mapsto> ''numeric''] in
      case allowed t of Some safe \<Rightarrow> safe | None \<Rightarrow> ''text'')"

definition AddColumn_legacy ::
  "(string \<Rightarrow> error option) \<Rightarrow> string \<Rightarrow> AddColumnRequest \<Rightarrow> error option \<times> string list" where
  "AddColumn_legacy exec tableName req =
     (if \<not> validIdentifier tableName then (Some InvalidTableName, [])
      else if \<not> validIdentifier (AddColumnRequest.Name req) then (Some InvalidColumnName, [])
      else
        let colDef = sanitizeIdentifier (AddColumnRequest.Name req) @ '' ''
              @ sanitizeType_legacy (AddColumnRequest.Type req);
            colDef = (if \<not> Nullable req then colDef @ '' NOT NULL'' else colDef);
            colDef = (if AddColumnRequest.PrimaryKey req then colDef @ '' PRIMARY KEY'' else colDef);
            colDef = (if AddColumnRequest.Unique req \<and> \<not> AddColumnRequest.PrimaryKey req
                      then colDef @ '' UNIQUE'' else colDef);
            colDef =
              (case ForeignKey req of
                 None \<Rightarrow> colDef
               | Some fk \<Rightarrow>
                   if ForeignKey.ReferencesTable fk \<noteq> [] \<and> ForeignKey.ReferencesColumn fk \<noteq> []
                   then colDef @ '' REFERENCES '' @ sanitizeIdentifier (ForeignKey.ReferencesTable fk)
                        @ ''('' @ sanitizeIdentifier (ForeignKey.ReferencesColumn fk) @ '')''
                   else colDef);
            query = ''ALTER TABLE '' @ sanitizeIdentifier tableName @ '' ADD COLUMN '' @ colDef
        in (exec query, [query]))"

subsection \<open>The statement in the words of the specification\<close>

definition quoted :: "string \<Rightarrow> string" where
  "quoted s = [dq] @ s @ [dq]"

definition add_column_statement ::
  "string \<Rightarrow> string \<Rightarrow> string \<Rightarrow> bool \<Rightarrow> bool \<Rightarrow> bool \<Rightarrow> string \<Rightarrow> string \<Rightarrow> string" where
  \<comment> \<open>\<open>ALTER TABLE "t" ADD COLUMN "c" type [NOT NULL] [PRIMARY KEY] [UNIQUE]
      [REFERENCES "rt"("rc")]\<close>, the clauses in this order\<close>
  "add_column_statement table column type nullable primaryKey unique refTable refColumn =
     ''ALTER TABLE '' @ quoted table @ '' ADD COLUMN '' @ quoted column @ '' '' @ type
     @ (if \<not> nullable then '' NOT NULL'' else [])
     @ (if primaryKey then '' PRIMARY KEY'' else [])
     @ (if unique \<and> \<not> primaryKey then '' UNIQUE'' else [])
     @ (if refTable \<noteq> [] \<and> refColumn \<noteq> []
        then '' REFERENCES '' @ quoted refTable @ ''('' @ quoted refColumn @ '')'' else [])"

definition on_allow_list :: "string \<Rightarrow> bool" where
  \<comment> \<open>the type string is exactly the name of an entry of the static list\<close>
  "on_allow_list t = (t \<in> set (map TypeInfo.Name AllowedTypes))"

definition reference_fields_consistent :: "AddColumnRequest \<Rightarrow> bool" where
  \<comment> \<open>the foreign key is absent, or its two reference fields are both empty or both
      valid identifiers\<close>
  "reference_fields_consistent req =
     (case ForeignKey req of
        None \<Rightarrow> True
      | Some fk \<Rightarrow>
          (ForeignKey.ReferencesTable fk = [] \<and> ForeignKey.ReferencesColumn fk = [])
          \<or> (ValidIdentifier (ForeignKey.ReferencesTable fk)
              \<and> ValidIdentifier (ForeignKey.ReferencesColumn fk)))"

definition accept_all :: "string \<Rightarrow> error option" where
  \<comment> \<open>a database that executes every statement without error\<close>
  "accept_all q = None"

subsection \<open>Facts about quoting, the allow-list and the builder\<close>

lemma ident_char_not_dq: "ident_char c \<Longrightarrow> c \<noteq> dq"
  by (auto simp: ident_char_byte dq_def byte_def)

lemma ReplaceAll_dq_id: "list_all ident_char s \<Longrightarrow> ReplaceAll_dq s = s"
  by (induction s) (auto simp: ReplaceAll_dq_def ident_char_not_dq)

lemma sanitizeIdentifier_valid:
  "ValidIdentifier s \<Longrightarrow> sanitizeIdentifier s = [dq] @ s @ [dq]"
  by (simp add: sanitizeIdentifier_def ReplaceAll_dq_id ValidIdentifier_chars)

lemma buildAllowedTypesMap_range_index:
  "index_bool (buildAllowedTypesMap_range ts m) k =
     (k \<in> set (map TypeInfo.Name ts) \<or> index_bool m k)"
  by (induction ts arbitrary: m) (auto simp: index_bool_def)

lemma IsValidType_iff: "IsValidType t = on_allow_list t"
  by (simp only: IsValidType_def allowedTypesMap_def buildAllowedTypesMap_def
        buildAllowedTypesMap_range_index on_allow_list_def) (simp add: index_bool_def)

lemma sanitizeType_iff:
  "sanitizeType t = (if IsValidType t then Inr t else Inl (UnsupportedColumnType t))"
  by (simp add: sanitizeType_def IsValidType_def)

lemma BuildAddColumnDDL_no_reference:
  assumes "ValidIdentifier tableName" "ValidIdentifier (ColumnDef.Name col)"
    "IsValidType (ColumnDef.Type col)"
    "ColumnDef.ReferencesTable col = [] \<or> ColumnDef.ReferencesColumn col = []"
  shows "BuildAddColumnDDL tableName col =
     Inr (add_column_statement tableName (ColumnDef.Name col) (ColumnDef.Type col)
            (\<not> NotNull col) (ColumnDef.PrimaryKey col) (ColumnDef.Unique col) [] [])"
  using assms
  by (auto simp: BuildAddColumnDDL_def sanitizeType_iff sanitizeIdentifier_valid
        add_column_statement_def quoted_def Let_def)

lemma BuildAddColumnDDL_reference:
  assumes "ValidIdentifier tableName" "ValidIdentifier (ColumnDef.Name col)"
    "IsValidType (ColumnDef.Type col)"
    "ValidIdentifier (ColumnDef.ReferencesTable col)"
    "ValidIdentifier (ColumnDef.ReferencesColumn col)"
  shows "BuildAddColumnDDL tableName col =
     Inr (add_column_statement tableName (ColumnDef.Name col) (ColumnDef.Type col)
            (\<not> NotNull col) (ColumnDef.PrimaryKey col) (ColumnDef.Unique col)
            (ColumnDef.ReferencesTable col) (ColumnDef.ReferencesColumn col))"
proof -
  from assms(4,5) have "ColumnDef.ReferencesTable col \<noteq> []"
      "ColumnDef.ReferencesColumn col \<noteq> []"
    by (auto dest: ValidIdentifier_chars)
  with assms show ?thesis
    by (auto simp: BuildAddColumnDDL_def sanitizeType_iff sanitizeIdentifier_valid
        add_column_statement_def quoted_def Let_def)
qed

lemma add_column_statement_no_reference:
  "rt = [] \<or> rc = [] \<Longrightarrow>
   add_column_statement t c ty n pk u rt rc = add_column_statement t c ty n pk u [] []"
  by (auto simp: add_column_statement_def)

lemma BuildAddColumnDDL_Inr_iff:
  "BuildAddColumnDDL tableName col = Inr q \<longleftrightarrow>
     ValidIdentifier tableName \<and> ValidIdentifier (ColumnDef.Name col)
     \<and> IsValidType (ColumnDef.Type col)
     \<and> (ColumnDef.ReferencesTable col \<noteq> [] \<and> ColumnDef.ReferencesColumn col \<noteq> [] \<longrightarrow>
          ValidIdentifier (ColumnDef.ReferencesTable col)
          \<and> ValidIdentifier (ColumnDef.ReferencesColumn col))
     \<and> q = add_column_statement tableName (ColumnDef.Name col) (ColumnDef.Type col)
            (\<not> NotNull col) (ColumnDef.PrimaryKey col) (ColumnDef.Unique col)
            (ColumnDef.ReferencesTable col) (ColumnDef.ReferencesColumn col)"
  (is "?L \<longleftrightarrow> ?R")
proof (cases "ValidIdentifier tableName \<and> ValidIdentifier (ColumnDef.Name col)
     \<and> IsValidType (ColumnDef.Type col)")
  case False
  then show ?thesis
    by (auto simp: BuildAddColumnDDL_def sanitizeType_iff Let_def)
next
  case ok: True
  show ?thesis
  proof (cases "ColumnDef.ReferencesTable col \<noteq> [] \<and> ColumnDef.ReferencesColumn col \<noteq> []")
    case False
    then have e: "ColumnDef.ReferencesTable col = [] \<or> ColumnDef.ReferencesColumn col = []"
      by simp
    with ok show ?thesis
      using BuildAddColumnDDL_no_reference [of tableName col]
        add_column_statement_no_reference [OF e]
      by auto
  next
    case ne: True
    show ?thesis
    proof (cases "ValidIdentifier (ColumnDef.ReferencesTable col)
        \<and> ValidIdentifier (ColumnDef.ReferencesColumn col)")
      case True
      with ok show ?thesis
        using BuildAddColumnDDL_reference [of tableName col] by auto
    next
      case False
      with ok ne show ?thesis
        by (auto simp: BuildAddColumnDDL_def sanitizeType_iff Let_def)
    qed
  qed
qed

lemma BuildAddColumnDDL_cases:
  "BuildAddColumnDDL tableName col =
     (if \<not> ValidIdentifier tableName then Inl InvalidTableName
      else if \<not> ValidIdentifier (ColumnDef.Name col) then Inl InvalidColumnName
      else if \<not> IsValidType (ColumnDef.Type col)
        then Inl (UnsupportedColumnType (ColumnDef.Type col))
      else if ColumnDef.ReferencesTable col \<noteq> [] \<and> ColumnDef.ReferencesColumn col \<noteq> []
           \<and> \<not> ValidIdentifier (ColumnDef.ReferencesTable col)
        then Inl InvalidForeignKeyTableName
      else if ColumnDef.ReferencesTable col \<noteq> [] \<and> ColumnDef.ReferencesColumn col \<noteq> []
           \<and> \<not> ValidIdentifier (ColumnDef.ReferencesColumn col)
        then Inl InvalidForeignKeyColumnName
      else Inr (add_column_statement tableName (ColumnDef.Name col) (ColumnDef.Type col)
            (\<not> NotNull col) (ColumnDef.PrimaryKey col) (ColumnDef.Unique col)
            (ColumnDef.ReferencesTable col) (ColumnDef.ReferencesColumn col)))"
proof (cases "BuildAddColumnDDL tableName col")
  case (Inr q)
  then show ?thesis
    using BuildAddColumnDDL_Inr_iff [of tableName col q] by auto
next
  case (Inl e)
  have "\<not> (ValidIdentifier tableName \<and> ValidIdentifier (ColumnDef.Name col)
     \<and> IsValidType (ColumnDef.Type col)
     \<and> (ColumnDef.ReferencesTable col \<noteq> [] \<and> ColumnDef.ReferencesColumn col \<noteq> [] \<longrightarrow>
          ValidIdentifier (ColumnDef.ReferencesTable col)
          \<and> ValidIdentifier (ColumnDef.ReferencesColumn col)))"
    using Inl BuildAddColumnDDL_Inr_iff [of tableName col] by auto
  then show ?thesis
    by (auto simp: BuildAddColumnDDL_def sanitizeType_iff Let_def)
qed

lemma ValidIdentifier_nonempty: "ValidIdentifier s \<Longrightarrow> s \<noteq> []"
  by (auto simp: ValidIdentifier_def)

lemma IsValidType_nonempty: "IsValidType t \<Longrightarrow> t \<noteq> []"
  by (auto simp: IsValidType_iff on_allow_list_def AllowedTypes_def)

lemma AddColumn_cases:
  "AddColumn exec tableName req =
     (case BuildAddColumnDDL tableName (AddColumn_col req) of
        Inl err \<Rightarrow> (Some err, []) | Inr query \<Rightarrow> (exec query, [query]))"
  by (simp add: AddColumn_def)

lemma AddColumn_col_fields:
  "ColumnDef.Name (AddColumn_col req) = AddColumnRequest.Name req"
  "ColumnDef.Type (AddColumn_col req) = AddColumnRequest.Type req"
  "NotNull (AddColumn_col req) = (\<not> Nullable req)"
  "ColumnDef.PrimaryKey (AddColumn_col req) = AddColumnRequest.PrimaryKey req"
  "ColumnDef.Unique (AddColumn_col req) = AddColumnRequest.Unique req"
  "ColumnDef.ReferencesTable (AddColumn_col req) =
     (case ForeignKey req of None \<Rightarrow> [] | Some fk \<Rightarrow> ForeignKey.ReferencesTable fk)"
  "ColumnDef.ReferencesColumn (AddColumn_col req) =
     (case ForeignKey req of None \<Rightarrow> [] | Some fk \<Rightarrow> ForeignKey.ReferencesColumn fk)"
  by (simp_all add: AddColumn_col_def Let_def split: option.splits)

lemma handleAddColumn_checked:
  assumes "ValidIdentifier tableName" "ValidIdentifier (AddColumnRequest.Name req)"
    "IsValidType (AddColumnRequest.Type req)"
  shows "handleAddColumn exec tableName (Some req) =
     (case AddColumn exec tableName req of
        (Some err, sent) \<Rightarrow>
          (RespondError ErrAddColumn ''Failed to add column'' StatusInternalServerError, sent)
      | (None, sent) \<Rightarrow> (RespondJSON (AddColumnRequest.Name req), sent))"
  using assms ValidIdentifier_nonempty [of tableName]
    ValidIdentifier_nonempty [of "AddColumnRequest.Name req"]
    IsValidType_nonempty [of "AddColumnRequest.Type req"]
  by (simp add: handleAddColumn_def validateIdentifier_def)

lemma handleAddColumn_reaches_engine:
  assumes "handleAddColumn exec tableName body = (r, sent)" "sent \<noteq> []"
  shows "\<exists>req. body = Some req \<and> ValidIdentifier tableName
     \<and> ValidIdentifier (AddColumnRequest.Name req) \<and> IsValidType (AddColumnRequest.Type req)"
  using assms
  by (auto simp: handleAddColumn_def validateIdentifier_def split: option.splits if_splits)

lemma handleAddColumn_unlisted_type:
  assumes "\<not> IsValidType (AddColumnRequest.Type req)"
  shows "\<exists>c m st. handleAddColumn exec tableName (Some req) = (RespondError c m st, [])"
  using assms
  by (auto simp: handleAddColumn_def validateIdentifier_def split: option.splits)

lemma handleAddColumn_engine_response:
  assumes "handleAddColumn exec tableName (Some req) = (r, sent)"
    and "r = RespondJSON n
         \<or> r = RespondError ErrAddColumn ''Failed to add column'' StatusInternalServerError"
  shows "ValidIdentifier tableName \<and> ValidIdentifier (AddColumnRequest.Name req)
     \<and> IsValidType (AddColumnRequest.Type req)"
  using assms
  by (auto simp: handleAddColumn_def validateIdentifier_def ErrAddColumn_def
        ErrMissingField_def ErrInvalidTableName_def ErrInvalidColName_def
        ErrInvalidRequest_def StatusBadRequest_def StatusInternalServerError_def
        split: option.splits if_splits)

lemma handleAddColumn_undecoded:
  "snd (handleAddColumn exec tableName None) = []
   \<and> (\<forall>n. fst (handleAddColumn exec tableName None) \<noteq> RespondJSON n)
   \<and> fst (handleAddColumn exec tableName None)
       \<noteq> RespondError ErrAddColumn ''Failed to add column'' StatusInternalServerError"
  by (auto simp: handleAddColumn_def validateIdentifier_def ErrAddColumn_def
        ErrMissingField_def ErrInvalidTableName_def ErrInvalidRequest_def
        StatusBadRequest_def StatusInternalServerError_def split: option.splits)

lemma valid_examples:
  "ValidIdentifier ''users''" "ValidIdentifier ''orders''" "ValidIdentifier ''user_id''"
  "ValidIdentifier ''id''" "ValidIdentifier ''age''"
  "\<not> ValidIdentifier ''Users''" "\<not> ValidIdentifier ''Bad Table''"
  by (simp_all add: ValidIdentifier_pattern matches_identifier_pattern_def ident_start_def
        ident_char_def less_eq_char_def)

lemma type_examples:
  "on_allow_list ''integer''" "on_allow_list ''text''" "\<not> on_allow_list ''varchar(10)''"
  "\<not> on_allow_list ''TEXT''"
  by (simp_all add: on_allow_list_def AllowedTypes_def)

subsection \<open>The claims about the add-column statement\<close>

text \<open>
  Claim C2. For every input whose table name and column name are valid identifiers, whose
  type is on the allow-list and whose reference fields, when present, are valid
  identifiers, the builder returns exactly
  \<open>ALTER TABLE "<table>" ADD COLUMN "<column>" <type>\<close> followed, in this order, by
  \<open>NOT NULL\<close> iff the column is not nullable, \<open>PRIMARY KEY\<close> iff requested,
  \<open>UNIQUE\<close> iff requested without \<open>PRIMARY KEY\<close>, and
  \<open>REFERENCES "<refTable>"("<refColumn>")\<close> iff both reference fields are non-empty;
  \<open>AddColumn\<close> sets \<open>NotNull\<close> to the negation of the request's \<open>nullable\<close> and
  sends exactly this statement.
\<close>

theorem BuildAddColumnDDL_statement:
  assumes "ValidIdentifier tableName"
    and "ValidIdentifier (ColumnDef.Name col)"
    and "on_allow_list (ColumnDef.Type col)"
    and "ColumnDef.ReferencesTable col = [] \<or> ValidIdentifier (ColumnDef.ReferencesTable col)"
    and "ColumnDef.ReferencesColumn col = [] \<or> ValidIdentifier (ColumnDef.ReferencesColumn col)"
  shows "BuildAddColumnDDL tableName col =
      Inr (add_column_statement tableName (ColumnDef.Name col) (ColumnDef.Type col)
             (\<not> NotNull col) (ColumnDef.PrimaryKey col) (ColumnDef.Unique col)
             (ColumnDef.ReferencesTable col) (ColumnDef.ReferencesColumn col))
    \<and> (\<forall>exec req. AddColumn_col req = col \<longrightarrow>
          NotNull col = (\<not> Nullable req)
          \<and> AddColumn exec tableName req =
              (exec (add_column_statement tableName (AddColumnRequest.Name req)
                       (AddColumnRequest.Type req) (Nullable req)
                       (AddColumnRequest.PrimaryKey req) (AddColumnRequest.Unique req)
                       (ColumnDef.ReferencesTable col) (ColumnDef.ReferencesColumn col)),
               [add_column_statement tableName (AddColumnRequest.Name req)
                       (AddColumnRequest.Type req) (Nullable req)
                       (AddColumnRequest.PrimaryKey req) (AddColumnRequest.Unique req)
                       (ColumnDef.ReferencesTable col) (ColumnDef.ReferencesColumn col)]))"
proof -
  have b: "BuildAddColumnDDL tableName col =
      Inr (add_column_statement tableName (ColumnDef.Name col) (ColumnDef.Type col)
             (\<not> NotNull col) (ColumnDef.PrimaryKey col) (ColumnDef.Unique col)
             (ColumnDef.ReferencesTable col) (ColumnDef.ReferencesColumn col))"
    using assms by (auto simp: BuildAddColumnDDL_cases IsValidType_iff)
  have "AddColumn_col req = col \<Longrightarrow>
      NotNull col = (\<not> Nullable req) \<and> ColumnDef.Name col = AddColumnRequest.Name req
      \<and> ColumnDef.Type col = AddColumnRequest.Type req
      \<and> ColumnDef.PrimaryKey col = AddColumnRequest.PrimaryKey req
      \<and> ColumnDef.Unique col = AddColumnRequest.Unique req" for req
    by (auto simp: AddColumn_col_def Let_def split: option.splits)
  with b show ?thesis
    by (auto simp: AddColumn_cases)
qed

theorem BuildAddColumnDDL_statement_witness:
  "ValidIdentifier ''orders'' \<and> ValidIdentifier ''user_id'' \<and> on_allow_list ''integer''
   \<and> ValidIdentifier ''users'' \<and> ValidIdentifier ''id''
   \<and> BuildAddColumnDDL ''orders''
        \<lparr>ColumnDef.Name = ''user_id'', Type = ''integer'', NotNull = True, PrimaryKey = True,
         Unique = True, ReferencesTable = ''users'', ReferencesColumn = ''id''\<rparr>
      = Inr (''ALTER TABLE '' @ [dq] @ ''orders'' @ [dq] @ '' ADD COLUMN '' @ [dq] @ ''user_id''
             @ [dq] @ '' integer NOT NULL PRIMARY KEY REFERENCES '' @ [dq] @ ''users'' @ [dq]
             @ ''('' @ [dq] @ ''id'' @ [dq] @ '')'')"
proof -
  have v: "ValidIdentifier ''orders''" "ValidIdentifier ''user_id''"
      "ValidIdentifier ''users''" "ValidIdentifier ''id''"
    by (simp_all add: ValidIdentifier_pattern matches_identifier_pattern_def ident_start_def
          ident_char_def less_eq_char_def)
  have t: "on_allow_list ''integer''"
    by (simp add: on_allow_list_def AllowedTypes_def)
  show ?thesis
    using v t
      BuildAddColumnDDL_statement [of "''orders''"
        "\<lparr>ColumnDef.Name = ''user_id'', Type = ''integer'', NotNull = True, PrimaryKey = True,
          Unique = True, ReferencesTable = ''users'', ReferencesColumn = ''id''\<rparr>"]
    by (simp add: add_column_statement_def quoted_def)
qed

text \<open>
  Claim C3, as amended. For every column type string that is not exactly the name of an
  entry of the allow-list, \<open>sanitizeType\<close> returns the unsupported-type error, the
  builder returns an error and no statement, and neither \<open>AddColumn\<close> nor the handler
  sends anything to the database: the type is never replaced by a default. The error of
  the builder is the unsupported-type error whenever the table name and the column name
  are valid; an invalid name is reported first.
\<close>

theorem unlisted_type_rejected:
  assumes "\<not> on_allow_list (ColumnDef.Type col)"
  shows "sanitizeType (ColumnDef.Type col) = Inl (UnsupportedColumnType (ColumnDef.Type col))
    \<and> isl (BuildAddColumnDDL tableName col)
    \<and> (ValidIdentifier tableName \<and> ValidIdentifier (ColumnDef.Name col) \<longrightarrow>
         BuildAddColumnDDL tableName col = Inl (UnsupportedColumnType (ColumnDef.Type col)))
    \<and> (\<not> ValidIdentifier tableName \<longrightarrow> BuildAddColumnDDL tableName col = Inl InvalidTableName)
    \<and> (ValidIdentifier tableName \<and> \<not> ValidIdentifier (ColumnDef.Name col) \<longrightarrow>
         BuildAddColumnDDL tableName col = Inl InvalidColumnName)
    \<and> (\<forall>exec req. AddColumn_col req = col \<longrightarrow>
          snd (AddColumn exec tableName req) = [] \<and> fst (AddColumn exec tableName req) \<noteq> None
          \<and> snd (handleAddColumn exec tableName (Some req)) = []
          \<and> (\<forall>name. fst (handleAddColumn exec tableName (Some req)) \<noteq> RespondJSON name))"
proof -
  from assms have t: "\<not> IsValidType (ColumnDef.Type col)"
    by (simp add: IsValidType_iff)
  have "AddColumn_col req = col \<Longrightarrow> \<not> IsValidType (AddColumnRequest.Type req)" for req
    using t by (auto simp: AddColumn_col_def Let_def split: option.splits)
  then have h: "AddColumn_col req = col \<Longrightarrow>
      snd (handleAddColumn exec tableName (Some req)) = []
      \<and> (\<forall>name. fst (handleAddColumn exec tableName (Some req)) \<noteq> RespondJSON name)"
    for exec req
    using handleAddColumn_unlisted_type [of req exec tableName] by auto
  from t have b: "isl (BuildAddColumnDDL tableName col)"
    by (simp add: BuildAddColumnDDL_cases)
  then have a: "AddColumn_col req = col \<Longrightarrow>
      snd (AddColumn exec tableName req) = [] \<and> fst (AddColumn exec tableName req) \<noteq> None"
    for exec req
    by (auto simp: AddColumn_cases split: sum.splits)
  from t a b h show ?thesis
    by (simp add: BuildAddColumnDDL_cases sanitizeType_iff)
qed

theorem unlisted_type_rejected_witness:
  "\<not> on_allow_list ''varchar(10)'' \<and> ValidIdentifier ''users'' \<and> ValidIdentifier ''age''
   \<and> BuildAddColumnDDL ''users''
        \<lparr>ColumnDef.Name = ''age'', Type = ''varchar(10)'', NotNull = True, PrimaryKey = False,
         Unique = False, ReferencesTable = [], ReferencesColumn = []\<rparr>
      = Inl (UnsupportedColumnType ''varchar(10)'')"
  using unlisted_type_rejected [of
      "\<lparr>ColumnDef.Name = ''age'', Type = ''varchar(10)'', NotNull = True, PrimaryKey = False,
        Unique = False, ReferencesTable = [], ReferencesColumn = []\<rparr>" "''users''"]
  by (simp add: valid_examples type_examples)

text \<open>
  The counterexample to claim C3 as it was stated: with an unlisted type and a table name
  that is not a valid identifier, the error is the table-name error, not the type error.
\<close>

theorem unlisted_type_counterexample:
  "\<not> on_allow_list ''varchar(10)''
   \<and> BuildAddColumnDDL ''Users''
        \<lparr>ColumnDef.Name = ''age'', Type = ''varchar(10)'', NotNull = True, PrimaryKey = False,
         Unique = False, ReferencesTable = [], ReferencesColumn = []\<rparr> = Inl InvalidTableName
   \<and> \<not> is_InvalidType InvalidTableName"
  by (simp add: BuildAddColumnDDL_cases valid_examples type_examples)

text \<open>
  Claim C4, as amended. When the reference table and the reference column are both
  non-empty, each goes through the identifier validator, the table first; if either is
  invalid the builder returns an error and no statement (the foreign-key error when the
  table name, the column name and the type are valid), and \<open>AddColumn\<close> sends nothing.
  When either field is empty, neither is validated and the statement is the one of the
  same column without a reference. A statement the builder returns has the
  \<open>REFERENCES\<close> clause exactly when both fields are non-empty, and then both are valid.
\<close>

theorem foreign_key_reference_checked:
  "(ColumnDef.ReferencesTable col \<noteq> [] \<and> ColumnDef.ReferencesColumn col \<noteq> []
      \<and> (\<not> ValidIdentifier (ColumnDef.ReferencesTable col)
           \<or> \<not> ValidIdentifier (ColumnDef.ReferencesColumn col)) \<longrightarrow>
      isl (BuildAddColumnDDL tableName col)
      \<and> (ValidIdentifier tableName \<and> ValidIdentifier (ColumnDef.Name col)
           \<and> on_allow_list (ColumnDef.Type col) \<longrightarrow>
           BuildAddColumnDDL tableName col =
             Inl (if \<not> ValidIdentifier (ColumnDef.ReferencesTable col)
                  then InvalidForeignKeyTableName else InvalidForeignKeyColumnName))
      \<and> (\<forall>exec req. AddColumn_col req = col \<longrightarrow>
            snd (AddColumn exec tableName req) = [] \<and> fst (AddColumn exec tableName req) \<noteq> None))
   \<and> (ColumnDef.ReferencesTable col = [] \<or> ColumnDef.ReferencesColumn col = [] \<longrightarrow>
        BuildAddColumnDDL tableName col =
          BuildAddColumnDDL tableName
            (col\<lparr>ColumnDef.ReferencesTable := [], ColumnDef.ReferencesColumn := []\<rparr>))
   \<and> (\<forall>q. BuildAddColumnDDL tableName col = Inr q \<longrightarrow>
        q = add_column_statement tableName (ColumnDef.Name col) (ColumnDef.Type col)
              (\<not> NotNull col) (ColumnDef.PrimaryKey col) (ColumnDef.Unique col)
              (ColumnDef.ReferencesTable col) (ColumnDef.ReferencesColumn col)
        \<and> (ColumnDef.ReferencesTable col \<noteq> [] \<and> ColumnDef.ReferencesColumn col \<noteq> [] \<longrightarrow>
             ValidIdentifier (ColumnDef.ReferencesTable col)
             \<and> ValidIdentifier (ColumnDef.ReferencesColumn col)))"
proof (intro conjI impI allI)
  assume a: "ColumnDef.ReferencesTable col \<noteq> [] \<and> ColumnDef.ReferencesColumn col \<noteq> []
      \<and> (\<not> ValidIdentifier (ColumnDef.ReferencesTable col)
           \<or> \<not> ValidIdentifier (ColumnDef.ReferencesColumn col))"
  then show b: "isl (BuildAddColumnDDL tableName col)"
    by (auto simp: BuildAddColumnDDL_cases)
  show "BuildAddColumnDDL tableName col =
      Inl (if \<not> ValidIdentifier (ColumnDef.ReferencesTable col)
           then InvalidForeignKeyTableName else InvalidForeignKeyColumnName)"
    if "ValidIdentifier tableName \<and> ValidIdentifier (ColumnDef.Name col)
        \<and> on_allow_list (ColumnDef.Type col)"
    using a that by (auto simp: BuildAddColumnDDL_cases IsValidType_iff)
  fix exec req
  assume "AddColumn_col req = col"
  with b show "snd (AddColumn exec tableName req) = []"
      and "fst (AddColumn exec tableName req) \<noteq> None"
    by (auto simp: AddColumn_cases split: sum.splits)
next
  assume "ColumnDef.ReferencesTable col = [] \<or> ColumnDef.ReferencesColumn col = []"
  then show "BuildAddColumnDDL tableName col =
      BuildAddColumnDDL tableName
        (col\<lparr>ColumnDef.ReferencesTable := [], ColumnDef.ReferencesColumn := []\<rparr>)"
    using add_column_statement_no_reference
      [of "ColumnDef.ReferencesTable col" "ColumnDef.ReferencesColumn col"]
    by (auto simp: BuildAddColumnDDL_cases)
next
  fix q
  assume q: "BuildAddColumnDDL tableName col = Inr q"
  then show "q = add_column_statement tableName (ColumnDef.Name col) (ColumnDef.Type col)
      (\<not> NotNull col) (ColumnDef.PrimaryKey col) (ColumnDef.Unique col)
      (ColumnDef.ReferencesTable col) (ColumnDef.ReferencesColumn col)"
    by (simp add: BuildAddColumnDDL_Inr_iff)
  show "ValidIdentifier (ColumnDef.ReferencesTable col)"
    if "ColumnDef.ReferencesTable col \<noteq> [] \<and> ColumnDef.ReferencesColumn col \<noteq> []"
    using q that by (simp add: BuildAddColumnDDL_Inr_iff)
  show "ValidIdentifier (ColumnDef.ReferencesColumn col)"
    if "ColumnDef.ReferencesTable col \<noteq> [] \<and> ColumnDef.ReferencesColumn col \<noteq> []"
    using q that by (simp add: BuildAddColumnDDL_Inr_iff)
qed

theorem foreign_key_reference_checked_witness:
  "ValidIdentifier ''orders'' \<and> ValidIdentifier ''user_id'' \<and> on_allow_list ''integer''
   \<and> \<not> ValidIdentifier ''Bad Table'' \<and> ValidIdentifier ''id''
   \<and> BuildAddColumnDDL ''orders''
        \<lparr>ColumnDef.Name = ''user_id'', Type = ''integer'', NotNull = True, PrimaryKey = False,
         Unique = False, ReferencesTable = ''Bad Table'', ReferencesColumn = ''id''\<rparr>
      = Inl InvalidForeignKeyTableName
   \<and> BuildAddColumnDDL ''orders''
        \<lparr>ColumnDef.Name = ''user_id'', Type = ''integer'', NotNull = True, PrimaryKey = False,
         Unique = False, ReferencesTable = ''Bad Table'', ReferencesColumn = []\<rparr>
      = BuildAddColumnDDL ''orders''
        \<lparr>ColumnDef.Name = ''user_id'', Type = ''integer'', NotNull = True, PrimaryKey = False,
         Unique = False, ReferencesTable = [], ReferencesColumn = []\<rparr>"
  using foreign_key_reference_checked [of
      "\<lparr>ColumnDef.Name = ''user_id'', Type = ''integer'', NotNull = True, PrimaryKey = False,
        Unique = False, ReferencesTable = ''Bad Table'', ReferencesColumn = ''id''\<rparr>" "''orders''"]
    foreign_key_reference_checked [of
      "\<lparr>ColumnDef.Name = ''user_id'', Type = ''integer'', NotNull = True, PrimaryKey = False,
        Unique = False, ReferencesTable = ''Bad Table'', ReferencesColumn = []\<rparr>" "''orders''"]
  by (simp add: valid_examples type_examples)

text \<open>
  The counterexample to claim C4 as it was stated: the request carries a foreign key
  whose reference table is not a valid identifier and whose reference column is empty;
  \<open>AddColumn\<close> returns no error and sends the statement without a reference.
\<close>

theorem half_reference_counterexample:
  "\<not> ValidIdentifier ''Bad Table''
   \<and> ForeignKey \<lparr>AddColumnRequest.Name = ''user_id'', Type = ''integer'', Nullable = False,
         PrimaryKey = False, Unique = False,
         ForeignKey = Some \<lparr>ColumnName = ''user_id'', ReferencesTable = ''Bad Table'',
                            ReferencesColumn = []\<rparr>\<rparr> \<noteq> None
   \<and> AddColumn accept_all ''orders''
        \<lparr>AddColumnRequest.Name = ''user_id'', Type = ''integer'', Nullable = False,
         PrimaryKey = False, Unique = False,
         ForeignKey = Some \<lparr>ColumnName = ''user_id'', ReferencesTable = ''Bad Table'',
                            ReferencesColumn = []\<rparr>\<rparr>
      = (None, [''ALTER TABLE '' @ [dq] @ ''orders'' @ [dq] @ '' ADD COLUMN '' @ [dq]
                 @ ''user_id'' @ [dq] @ '' integer NOT NULL''])"
  by (simp add: AddColumn_cases AddColumn_col_def BuildAddColumnDDL_cases valid_examples
        type_examples IsValidType_iff add_column_statement_def quoted_def accept_all_def)

text \<open>
  With a valid table name, a valid column name, a type that passes \<open>IsValidType\<close> and
  reference fields that are absent, both empty or both valid, no error branch of the
  builder is taken: it returns the statement, \<open>AddColumn\<close> sends it, and the only error
  \<open>AddColumn\<close> can return is the database's.
\<close>

lemma BuildAddColumnDDL_total_when_consistent:
  assumes "ValidIdentifier tableName"
    and "ValidIdentifier (AddColumnRequest.Name req)"
    and "IsValidType (AddColumnRequest.Type req)"
    and "reference_fields_consistent req"
  shows "\<not> isl (BuildAddColumnDDL tableName (AddColumn_col req))
    \<and> BuildAddColumnDDL tableName (AddColumn_col req) =
        Inr (add_column_statement tableName (AddColumnRequest.Name req)
               (AddColumnRequest.Type req) (Nullable req) (AddColumnRequest.PrimaryKey req)
               (AddColumnRequest.Unique req) (ColumnDef.ReferencesTable (AddColumn_col req))
               (ColumnDef.ReferencesColumn (AddColumn_col req)))
    \<and> snd (AddColumn exec tableName req) =
        [add_column_statement tableName (AddColumnRequest.Name req)
               (AddColumnRequest.Type req) (Nullable req) (AddColumnRequest.PrimaryKey req)
               (AddColumnRequest.Unique req) (ColumnDef.ReferencesTable (AddColumn_col req))
               (ColumnDef.ReferencesColumn (AddColumn_col req))]
    \<and> fst (AddColumn exec tableName req) = exec (hd (snd (AddColumn exec tableName req)))
    \<and> snd (handleAddColumn exec tableName (Some req)) = snd (AddColumn exec tableName req)"
proof -
  let ?col = "AddColumn_col req"
  have r: "ColumnDef.ReferencesTable ?col \<noteq> [] \<and> ColumnDef.ReferencesColumn ?col \<noteq> [] \<Longrightarrow>
      ValidIdentifier (ColumnDef.ReferencesTable ?col)
      \<and> ValidIdentifier (ColumnDef.ReferencesColumn ?col)"
    using assms(4)
    by (auto simp: reference_fields_consistent_def AddColumn_col_fields split: option.splits)
  have b: "BuildAddColumnDDL tableName ?col =
      Inr (add_column_statement tableName (AddColumnRequest.Name req)
             (AddColumnRequest.Type req) (Nullable req) (AddColumnRequest.PrimaryKey req)
             (AddColumnRequest.Unique req) (ColumnDef.ReferencesTable ?col)
             (ColumnDef.ReferencesColumn ?col))"
    using assms(1-3) r
    by (auto simp: BuildAddColumnDDL_cases AddColumn_col_fields(1-5))
  then show ?thesis
    using assms(1-3)
    by (simp add: AddColumn_cases handleAddColumn_checked split: option.splits)
qed

text \<open>
  Claim C9, as amended. Before it calls the engine \<open>handleAddColumn\<close> establishes that
  the table name and the column name are valid identifiers and that the type is on the
  allow-list; it does not look at the foreign-key reference fields. So on every request
  for which the handler calls the engine (it answers with the column name or with
  \<open>ADD_COLUMN_ERROR\<close>) the table-name, column-name and type error branches of
  \<open>BuildAddColumnDDL\<close> are unreachable, and the builder returns the statement unless both
  reference fields are non-empty and one of them is not a valid identifier, where it
  returns the foreign-key error of that field. When the reference fields are absent, both
  empty or both valid the builder returns the statement, the statement is sent, and the
  answer is the column name exactly when the database accepts it; when the builder does
  return an error nothing is sent, the answer is \<open>ADD_COLUMN_ERROR\<close>, and the reference
  fields are not of that form.
\<close>

theorem handler_checks_builder_errors:
  assumes "handleAddColumn exec tableName (Some req) = (r, sent)"
    and "r = RespondJSON n
         \<or> r = RespondError ErrAddColumn ''Failed to add column'' StatusInternalServerError"
  shows "ValidIdentifier tableName \<and> ValidIdentifier (AddColumnRequest.Name req)
      \<and> IsValidType (AddColumnRequest.Type req)
    \<and> BuildAddColumnDDL tableName (AddColumn_col req) =
        (if ColumnDef.ReferencesTable (AddColumn_col req) \<noteq> []
            \<and> ColumnDef.ReferencesColumn (AddColumn_col req) \<noteq> []
            \<and> \<not> ValidIdentifier (ColumnDef.ReferencesTable (AddColumn_col req))
         then Inl InvalidForeignKeyTableName
         else if ColumnDef.ReferencesTable (AddColumn_col req) \<noteq> []
            \<and> ColumnDef.ReferencesColumn (AddColumn_col req) \<noteq> []
            \<and> \<not> ValidIdentifier (ColumnDef.ReferencesColumn (AddColumn_col req))
         then Inl InvalidForeignKeyColumnName
         else Inr (add_column_statement tableName (AddColumnRequest.Name req)
                (AddColumnRequest.Type req) (Nullable req) (AddColumnRequest.PrimaryKey req)
                (AddColumnRequest.Unique req) (ColumnDef.ReferencesTable (AddColumn_col req))
                (ColumnDef.ReferencesColumn (AddColumn_col req))))
    \<and> (reference_fields_consistent req \<longrightarrow>
          sent = [add_column_statement tableName (AddColumnRequest.Name req)
                (AddColumnRequest.Type req) (Nullable req) (AddColumnRequest.PrimaryKey req)
                (AddColumnRequest.Unique req) (ColumnDef.ReferencesTable (AddColumn_col req))
                (ColumnDef.ReferencesColumn (AddColumn_col req))]
          \<and> BuildAddColumnDDL tableName (AddColumn_col req) = Inr (hd sent)
          \<and> (r = RespondJSON (AddColumnRequest.Name req)) = (exec (hd sent) = None))
    \<and> (isl (BuildAddColumnDDL tableName (AddColumn_col req)) \<longrightarrow>
          sent = []
          \<and> r = RespondError ErrAddColumn ''Failed to add column'' StatusInternalServerError
          \<and> \<not> reference_fields_consistent req)"
proof -
  let ?col = "AddColumn_col req"
  let ?stmt = "add_column_statement tableName (AddColumnRequest.Name req)
                (AddColumnRequest.Type req) (Nullable req) (AddColumnRequest.PrimaryKey req)
                (AddColumnRequest.Unique req) (ColumnDef.ReferencesTable ?col)
                (ColumnDef.ReferencesColumn ?col)"
  have v: "ValidIdentifier tableName" "ValidIdentifier (AddColumnRequest.Name req)"
      "IsValidType (AddColumnRequest.Type req)"
    using handleAddColumn_engine_response [OF assms] by simp_all
  have b: "BuildAddColumnDDL tableName ?col =
        (if ColumnDef.ReferencesTable ?col \<noteq> [] \<and> ColumnDef.ReferencesColumn ?col \<noteq> []
            \<and> \<not> ValidIdentifier (ColumnDef.ReferencesTable ?col)
         then Inl InvalidForeignKeyTableName
         else if ColumnDef.ReferencesTable ?col \<noteq> [] \<and> ColumnDef.ReferencesColumn ?col \<noteq> []
            \<and> \<not> ValidIdentifier (ColumnDef.ReferencesColumn ?col)
         then Inl InvalidForeignKeyColumnName
         else Inr ?stmt)"
    using v by (simp add: BuildAddColumnDDL_cases AddColumn_col_fields(1-5))
  have h: "(r, sent) =
     (case AddColumn exec tableName req of
        (Some err, sent) \<Rightarrow>
          (RespondError ErrAddColumn ''Failed to add column'' StatusInternalServerError, sent)
      | (None, sent) \<Rightarrow> (RespondJSON (AddColumnRequest.Name req), sent))"
    using handleAddColumn_checked [OF v, of exec] assms(1) by simp
  have c: "reference_fields_consistent req \<Longrightarrow>
      BuildAddColumnDDL tableName ?col = Inr ?stmt"
    by (auto simp: b reference_fields_consistent_def AddColumn_col_fields(6,7)
          split: option.splits dest: ValidIdentifier_nonempty)
  have 3: "reference_fields_consistent req \<longrightarrow>
          sent = [?stmt] \<and> BuildAddColumnDDL tableName ?col = Inr (hd sent)
          \<and> (r = RespondJSON (AddColumnRequest.Name req)) = (exec (hd sent) = None)"
  proof
    assume "reference_fields_consistent req"
    then have "BuildAddColumnDDL tableName ?col = Inr ?stmt"
      by (rule c)
    with h show "sent = [?stmt] \<and> BuildAddColumnDDL tableName ?col = Inr (hd sent)
          \<and> (r = RespondJSON (AddColumnRequest.Name req)) = (exec (hd sent) = None)"
      by (cases "exec ?stmt") (auto simp: AddColumn_cases)
  qed
  have 4: "isl (BuildAddColumnDDL tableName ?col) \<longrightarrow>
          sent = []
          \<and> r = RespondError ErrAddColumn ''Failed to add column'' StatusInternalServerError
          \<and> \<not> reference_fields_consistent req"
  proof
    assume i: "isl (BuildAddColumnDDL tableName ?col)"
    then have "\<not> reference_fields_consistent req"
      using c by auto
    moreover from i h have "sent = []
        \<and> r = RespondError ErrAddColumn ''Failed to add column'' StatusInternalServerError"
      by (auto simp: AddColumn_cases split: sum.splits)
    ultimately show "sent = []
          \<and> r = RespondError ErrAddColumn ''Failed to add column'' StatusInternalServerError
          \<and> \<not> reference_fields_consistent req"
      by simp
  qed
  from v b 3 4 show ?thesis
    by blast
qed

theorem handler_checks_builder_errors_witness:
  "handleAddColumn accept_all ''orders''
     (Some \<lparr>AddColumnRequest.Name = ''user_id'', Type = ''integer'', Nullable = True,
            PrimaryKey = False, Unique = True,
            ForeignKey = Some \<lparr>ColumnName = ''user_id'', ReferencesTable = ''users'',
                               ReferencesColumn = ''id''\<rparr>\<rparr>)
     = (RespondJSON ''user_id'',
        [''ALTER TABLE '' @ [dq] @ ''orders'' @ [dq] @ '' ADD COLUMN '' @ [dq] @ ''user_id''
         @ [dq] @ '' integer UNIQUE REFERENCES '' @ [dq] @ ''users'' @ [dq]
         @ ''('' @ [dq] @ ''id'' @ [dq] @ '')''])
   \<and> ValidIdentifier ''orders'' \<and> ValidIdentifier ''user_id'' \<and> IsValidType ''integer''
   \<and> BuildAddColumnDDL ''orders'' (AddColumn_col
        \<lparr>AddColumnRequest.Name = ''user_id'', Type = ''integer'', Nullable = True,
         PrimaryKey = False, Unique = True,
         ForeignKey = Some \<lparr>ColumnName = ''user_id'', ReferencesTable = ''users'',
                            ReferencesColumn = ''id''\<rparr>\<rparr>)
      = Inr (''ALTER TABLE '' @ [dq] @ ''orders'' @ [dq] @ '' ADD COLUMN '' @ [dq] @ ''user_id''
             @ [dq] @ '' integer UNIQUE REFERENCES '' @ [dq] @ ''users'' @ [dq]
             @ ''('' @ [dq] @ ''id'' @ [dq] @ '')'')"
proof -
  let ?req = "\<lparr>AddColumnRequest.Name = ''user_id'', Type = ''integer'', Nullable = True,
         PrimaryKey = False, Unique = True,
         ForeignKey = Some \<lparr>ColumnName = ''user_id'', ReferencesTable = ''users'',
                            ReferencesColumn = ''id''\<rparr>\<rparr>"
  let ?stmt = "''ALTER TABLE '' @ [dq] @ ''orders'' @ [dq] @ '' ADD COLUMN '' @ [dq]
         @ ''user_id'' @ [dq] @ '' integer UNIQUE REFERENCES '' @ [dq] @ ''users'' @ [dq]
         @ ''('' @ [dq] @ ''id'' @ [dq] @ '')''"
  have h: "handleAddColumn accept_all ''orders'' (Some ?req) = (RespondJSON ''user_id'', [?stmt])"
    by (simp add: handleAddColumn_checked valid_examples type_examples IsValidType_iff
          AddColumn_cases BuildAddColumnDDL_cases AddColumn_col_fields add_column_statement_def
          quoted_def accept_all_def)
  have c: "reference_fields_consistent ?req"
    by (simp add: reference_fields_consistent_def valid_examples)
  have "ValidIdentifier ''orders'' \<and> ValidIdentifier (AddColumnRequest.Name ?req)
      \<and> IsValidType (AddColumnRequest.Type ?req)
      \<and> BuildAddColumnDDL ''orders'' (AddColumn_col ?req) = Inr (hd [?stmt])"
    using handler_checks_builder_errors [OF h, of "''user_id''"] c by blast
  with h show ?thesis
    by simp
qed

text \<open>
  The counterexample to claim C9 as it was stated: the request passes every check of
  \<open>handleAddColumn\<close> (valid table name, valid column name, listed type) with two
  non-empty reference fields of which the table is not a valid identifier; the handler
  calls the engine, the builder returns its foreign-key error, nothing is sent and the
  answer is \<open>ADD_COLUMN_ERROR\<close>.
\<close>

theorem handler_reference_counterexample:
  "handleAddColumn accept_all ''orders''
     (Some \<lparr>AddColumnRequest.Name = ''user_id'', Type = ''integer'', Nullable = False,
            PrimaryKey = False, Unique = False,
            ForeignKey = Some \<lparr>ColumnName = ''user_id'', ReferencesTable = ''Bad Table'',
                               ReferencesColumn = ''id''\<rparr>\<rparr>)
     = (RespondError ErrAddColumn ''Failed to add column'' StatusInternalServerError, [])
   \<and> \<not> reference_fields_consistent
        \<lparr>AddColumnRequest.Name = ''user_id'', Type = ''integer'', Nullable = False,
         PrimaryKey = False, Unique = False,
         ForeignKey = Some \<lparr>ColumnName = ''user_id'', ReferencesTable = ''Bad Table'',
                            ReferencesColumn = ''id''\<rparr>\<rparr>
   \<and> BuildAddColumnDDL ''orders'' (AddColumn_col
        \<lparr>AddColumnRequest.Name = ''user_id'', Type = ''integer'', Nullable = False,
         PrimaryKey = False, Unique = False,
         ForeignKey = Some \<lparr>ColumnName = ''user_id'', ReferencesTable = ''Bad Table'',
                            ReferencesColumn = ''id''\<rparr>\<rparr>)
      = Inl InvalidForeignKeyTableName"
  by (simp add: handleAddColumn_checked valid_examples type_examples IsValidType_iff
        AddColumn_cases BuildAddColumnDDL_cases AddColumn_col_fields
        reference_fields_consistent_def)

text \<open>
  The earlier \<open>sanitizeType\<close> of \<open>validate.go\<close> falls back to \<open>text\<close>, and the
  earlier \<open>AddColumn\<close> of \<open>models.go\<close> builds the statement with it.
\<close>

lemma sanitizeType_legacy_default:
  "sanitizeType_legacy ''integer'' = ''text''"
  by (simp add: sanitizeType_legacy_def)

lemma AddColumn_legacy_coerces_type:
  "AddColumn_legacy accept_all ''users''
     \<lparr>AddColumnRequest.Name = ''age'', Type = ''integer'', Nullable = False,
      PrimaryKey = False, Unique = False, ForeignKey = None\<rparr>
   = (None, [''ALTER TABLE '' @ [dq] @ ''users'' @ [dq] @ '' ADD COLUMN '' @ [dq] @ ''age''
             @ [dq] @ '' text NOT NULL''])"
  using valid_examples
  by (simp add: AddColumn_legacy_def validIdentifier_def ValidIdentifier_def
        sanitizeIdentifier_valid sanitizeType_legacy_def accept_all_def)

text \<open>
  On its own three types, with valid names and reference fields that are empty or valid,
  the earlier operation sends the statement the builder returns; its reference fields
  are quoted but never validated.
\<close>

lemma validIdentifier_eq: "validIdentifier s = ValidIdentifier s"
  by (simp add: validIdentifier_def ValidIdentifier_def)

lemma sanitizeType_legacy_listed:
  "t \<in> set [''text'', ''date'', ''numeric''] \<Longrightarrow> sanitizeType_legacy t = t"
  by (auto simp: sanitizeType_legacy_def)

lemma sanitizeType_legacy_unlisted:
  "t \<notin> set [''text'', ''date'', ''numeric''] \<Longrightarrow> sanitizeType_legacy t = ''text''"
  by (auto simp: sanitizeType_legacy_def)

lemma AddColumn_legacy_statement:
  assumes "ValidIdentifier tableName" "ValidIdentifier (AddColumnRequest.Name req)"
    and "AddColumnRequest.Type req \<in> set [''text'', ''date'', ''numeric'']"
    and "ColumnDef.ReferencesTable (AddColumn_col req) = []
         \<or> ValidIdentifier (ColumnDef.ReferencesTable (AddColumn_col req))"
    and "ColumnDef.ReferencesColumn (AddColumn_col req) = []
         \<or> ValidIdentifier (ColumnDef.ReferencesColumn (AddColumn_col req))"
  shows "AddColumn_legacy exec tableName req = AddColumn exec tableName req"
proof -
  have t: "IsValidType (AddColumnRequest.Type req)"
    using assms(3) by (auto simp: IsValidType_iff on_allow_list_def AllowedTypes_def)
  have s: "sanitizeType_legacy (AddColumnRequest.Type req) = AddColumnRequest.Type req"
    using assms(3) by (rule sanitizeType_legacy_listed)
  have b: "BuildAddColumnDDL tableName (AddColumn_col req) =
      Inr (add_column_statement tableName (AddColumnRequest.Name req)
             (AddColumnRequest.Type req) (Nullable req) (AddColumnRequest.PrimaryKey req)
             (AddColumnRequest.Unique req) (ColumnDef.ReferencesTable (AddColumn_col req))
             (ColumnDef.ReferencesColumn (AddColumn_col req)))"
    using assms(1,2,4,5) t
    by (auto simp: BuildAddColumnDDL_cases AddColumn_col_fields(1-5))
  show ?thesis
  proof (cases "ForeignKey req")
    case None
    with assms(1,2) show ?thesis
      by (simp add: AddColumn_cases b AddColumn_legacy_def validIdentifier_eq s Let_def
            sanitizeIdentifier_valid add_column_statement_def quoted_def AddColumn_col_fields)
  next
    case (Some fk)
    with assms(1,2,4,5) show ?thesis
      by (auto simp: AddColumn_cases b AddColumn_legacy_def validIdentifier_eq s Let_def
            sanitizeIdentifier_valid add_column_statement_def quoted_def AddColumn_col_fields)
  qed
qed

lemma AddColumn_legacy_reference_unchecked:
  "AddColumn_legacy accept_all ''orders''
     \<lparr>AddColumnRequest.Name = ''user_id'', Type = ''numeric'', Nullable = False,
      PrimaryKey = False, Unique = False,
      ForeignKey = Some \<lparr>ColumnName = ''user_id'', ReferencesTable = ''Bad Table'',
                         ReferencesColumn = ''id''\<rparr>\<rparr>
   = (None, [''ALTER TABLE '' @ [dq] @ ''orders'' @ [dq] @ '' ADD COLUMN '' @ [dq] @ ''user_id''
             @ [dq] @ '' numeric NOT NULL REFERENCES '' @ [dq] @ ''Bad Table'' @ [dq]
             @ ''('' @ [dq] @ ''id'' @ [dq] @ '')''])"
  using valid_examples
  by (simp add: AddColumn_legacy_def validIdentifier_eq sanitizeIdentifier_valid
        sanitizeType_legacy_def accept_all_def)
     (simp add: sanitizeIdentifier_def ReplaceAll_dq_def dq_def)

section \<open>Durations and the configured timeouts\<close>

text \<open>
  \<open>time.Duration\<close> is a signed 64-bit count of nanoseconds; its arithmetic wraps around.
  \<open>strconv.Atoi\<close> reads an optional sign and decimal digits and fails outside the range of
  a 64-bit \<open>int\<close>.
\<close>

type_synonym Duration = "64 word"

definition Second :: Duration where
  "Second = 1000000000"

definition digit_value :: "char \<Rightarrow> nat option" where
  "digit_value c = (if CHR ''0'' \<le> c \<and> c \<le> CHR ''9'' then Some (byte c - 48) else None)"

fun parse_digits :: "string \<Rightarrow> nat \<Rightarrow> nat option" where
  "parse_digits [] acc = Some acc"
| "parse_digits (c # cs) acc =
     (case digit_value c of None \<Rightarrow> None | Some d \<Rightarrow> parse_digits cs (acc * 10 + d))"

definition Atoi :: "string \<Rightarrow> int option" where
  "Atoi s =
     (let neg = (s \<noteq> [] \<and> hd s = CHR ''-'');
          ds = (if s \<noteq> [] \<and> (hd s = CHR ''-'' \<or> hd s = CHR ''+'') then tl s else s)
      in if ds = [] then None
         else
           (case parse_digits ds 0 of
              None \<Rightarrow> None
            | Some n \<Rightarrow>
                let v = (if neg then - int n else int n)
                in if - (2 ^ 63) \<le> v \<and> v < 2 ^ 63 then Some v else None))"

definition getDurationEnv :: "string \<Rightarrow> Duration \<Rightarrow> Duration" where
  \<comment> \<open>the first argument is \<open>os.Getenv(key)\<close>, empty when the variable is not set\<close>
  "getDurationEnv val defaultVal =
     (if val = [] then defaultVal
      else
        (case Atoi val of
           None \<Rightarrow> defaultVal
         | Some seconds \<Rightarrow> word_of_int seconds * Second))"

definition Load_QueryTimeout :: "string \<Rightarrow> Duration" where
  \<comment> \<open>the field \<open>QueryTimeout\<close> that \<open>Load\<close> fills in from \<open>QUERY_TIMEOUT\<close>\<close>
  "Load_QueryTimeout val = getDurationEnv val (30 * Second)"

section \<open>The introspector: pool, database name and timeout\<close>

type_synonym pgxpool = nat  \<comment> \<open>the identity of a \<open>*pgxpool.Pool\<close>\<close>

record Introspector =
  pool :: "pgxpool option"  \<comment> \<open>\<open>None\<close> is the \<open>nil\<close> pointer\<close>
  dbName :: string
  queryTimeout :: Duration

definition NewIntrospector :: "pgxpool option \<Rightarrow> string \<Rightarrow> Duration \<Rightarrow> Introspector" where
  "NewIntrospector p name timeout = \<lparr>pool = p, dbName = name, queryTimeout = timeout\<rparr>"

definition SetPool :: "Introspector \<Rightarrow> pgxpool option \<Rightarrow> string \<Rightarrow> Introspector \<times> pgxpool option" where
  \<comment> \<open>under the write lock: the new state and the old pool\<close>
  "SetPool i p name = (let oldPool = pool i in (i\<lparr>pool := p, dbName := name\<rparr>, oldPool))"

definition CurrentDatabase :: "Introspector \<Rightarrow> string" where
  "CurrentDatabase i = dbName i"

definition getPool :: "Introspector \<Rightarrow> pgxpool option" where
  "getPool i = pool i"

subsection \<open>Contexts and \<open>withTimeout\<close>\<close>

text \<open>
  An instant is a count of nanoseconds; of a \<open>context.Context\<close> only its deadline
  matters here. \<open>context.WithCancel\<close> keeps the parent's deadline;
  \<open>context.WithDeadline\<close> keeps it when it is before the new one; \<open>context.WithTimeout\<close>
  is \<open>WithDeadline\<close> at the current instant plus the timeout. \<open>time.Until\<close> is the
  difference to the current instant, saturated to the range of a \<open>Duration\<close>.
\<close>

type_synonym Time = int

record Context =
  deadline :: "Time option"  \<comment> \<open>\<open>Deadline()\<close>: \<open>None\<close> when no deadline is set\<close>

definition WithCancel :: "Context \<Rightarrow> Context" where
  "WithCancel parent = parent"

definition WithDeadline :: "Context \<Rightarrow> Time \<Rightarrow> Context" where
  "WithDeadline parent d =
     (case deadline parent of
        Some cur \<Rightarrow> if cur < d then WithCancel parent else parent\<lparr>deadline := Some d\<rparr>
      | None \<Rightarrow> parent\<lparr>deadline := Some d\<rparr>)"

definition WithTimeout :: "Time \<Rightarrow> Context \<Rightarrow> Duration \<Rightarrow> Context" where
  \<comment> \<open>the first argument is the instant \<open>time.Now()\<close> returns inside the call\<close>
  "WithTimeout now parent timeout = WithDeadline parent (now + sint timeout)"

definition Until :: "Time \<Rightarrow> Time \<Rightarrow> Duration" where
  \<comment> \<open>\<open>time.Until(t)\<close> at the instant \<open>now\<close>\<close>
  "Until now t =
     (let d = t - now in
      if d > 2 ^ 63 - 1 then word_of_int (2 ^ 63 - 1)
      else if d < - (2 ^ 63) then word_of_int (- (2 ^ 63))
      else word_of_int d)"

text \<open>
  \<open>withTimeout\<close> reads the clock at most twice: \<open>now\<close> inside \<open>time.Until\<close> and, when
  it applies its own timeout, \<open>now'\<close> inside \<open>context.WithTimeout\<close>.
\<close>

definition withTimeout :: "Introspector \<Rightarrow> Time \<Rightarrow> Time \<Rightarrow> Context \<Rightarrow> Context" where
  "withTimeout i now now' parent =
     (case deadline parent of
        Some d \<Rightarrow>
          let remaining = Until now d in
          if remaining \<le>s queryTimeout i then WithCancel parent
          else WithTimeout now' parent (queryTimeout i)
      | None \<Rightarrow> WithTimeout now' parent (queryTimeout i))"

subsection \<open>Listing the databases\<close>

record pg_database =
  datname :: string
  datistemplate :: bool

definition ListDatabases_query :: "pg_database list \<Rightarrow> string list" where
  \<comment> \<open>the \<open>SELECT\<close> of \<open>ListDatabases\<close> on the server's catalog \<open>pg_database\<close>;
      \<open>ORDER BY datname\<close> is the byte-wise order of the names\<close>
  "ListDatabases_query catalog =
     sort (map datname
       (filter (\<lambda>d. datistemplate d = False
                  \<and> datname d \<notin> set [''postgres'', ''template0'', ''template1''])
          catalog))"

definition ListDatabases :: "pg_database list option \<Rightarrow> error + string list" where
  \<comment> \<open>the argument is what the pool's query yields: \<open>None\<close> when it fails\<close>
  "ListDatabases server =
     (case server of
        None \<Rightarrow> Inl (DatabaseError ''failed to list databases'')
      | Some catalog \<Rightarrow> Inr (ListDatabases_query catalog))"

section \<open>Switching the database\<close>

text \<open>
  One call of \<open>handleSwitchDatabase\<close>. What the world answers is the record
  \<open>switch_env\<close>; what the handler does, in program order, is a list of events. Only
  \<open>Wait\<close> takes time: the \<open>select\<close> blocks until the closing goroutine is done or
  the timer fires.
\<close>

datatype event =
    NewPool string  \<comment> \<open>\<open>pgxpool.New\<close> on the URL built for this database name\<close>
  | Ping pgxpool
  | Close pgxpool  \<comment> \<open>\<open>pool.Close()\<close> called by the handler itself\<close>
  | Lock  \<comment> \<open>\<open>h.poolCloseMu.Lock()\<close>\<close>
  | Unlock  \<comment> \<open>the deferred \<open>h.poolCloseMu.Unlock()\<close>\<close>
  | SetPoolCalled pgxpool string
  | GoClose pgxpool  \<comment> \<open>\<open>go func() { oldPool.Close(); close(done) }()\<close>\<close>
  | Wait nat  \<comment> \<open>blocked in \<open>select\<close> for this many nanoseconds\<close>
  | LogInfo  \<comment> \<open>\<open>Connection pool closed successfully\<close>\<close>
  | LogWarn Duration  \<comment> \<open>\<open>Connection pool close timed out after ...\<close>\<close>
  | Respond response

record switch_env =
  request :: "string option"  \<comment> \<open>the decoded \<open>name\<close>; \<open>None\<close> when the body does not decode\<close>
  server :: "pg_database list option"  \<comment> \<open>the catalog the list query reads; \<open>None\<close>: it fails\<close>
  created :: "pgxpool option"  \<comment> \<open>\<open>pgxpool.New\<close>: \<open>None\<close> is an error\<close>
  ping_ok :: bool
  close_takes :: "nat option"  \<comment> \<open>how long \<open>oldPool.Close()\<close> runs; \<open>None\<close>: it never returns\<close>
  tie_done :: bool  \<comment> \<open>the case \<open>select\<close> picks when both are ready at the same instant\<close>

fun allowed_range :: "string list \<Rightarrow> string \<Rightarrow> bool" where
  \<comment> \<open>\<open>for _, db := range databases { if db == req.Name { allowed = true; break } }\<close>\<close>
  "allowed_range [] name = False"
| "allowed_range (db # dbs) name = (if db = name then True else allowed_range dbs name)"

definition closeTimeout :: "Duration \<Rightarrow> Duration" where
  "closeTimeout QueryTimeout =
     (let timeout = QueryTimeout * 2 in
      if timeout <s 5 * Second then 5 * Second else timeout)"

definition select_done :: "nat option \<Rightarrow> bool \<Rightarrow> Duration \<Rightarrow> event list" where
  \<comment> \<open>\<open>select { case <-done: ... case <-time.After(timeout): ... }\<close>\<close>
  "select_done takes tie timeout =
     (let bound = nat (sint timeout) in
      case takes of
        None \<Rightarrow> [Wait bound, LogWarn timeout]
      | Some d \<Rightarrow>
          if d < bound \<or> (d = bound \<and> tie) then [Wait d, LogInfo]
          else [Wait bound, LogWarn timeout])"

definition handleSwitchDatabase ::
  "Duration \<Rightarrow> switch_env \<Rightarrow> Introspector \<Rightarrow> response \<times> event list \<times> Introspector" where
  \<comment> \<open>the first argument is \<open>h.config.QueryTimeout\<close>\<close>
  "handleSwitchDatabase QueryTimeout env i =
     (case request env of
        None \<Rightarrow>
          (let r = RespondError ErrInvalidRequest ''Invalid request body'' StatusBadRequest
           in (r, [Respond r], i))
      | Some name \<Rightarrow>
          if name = [] then
            (let r = RespondError ErrMissingField ''Database name is required'' StatusBadRequest
             in (r, [Respond r], i))
          else
            (case ListDatabases (server env) of
               Inl err \<Rightarrow>
                 (let r = RespondError ErrDatabaseError ''Failed to validate database''
                            StatusInternalServerError
                  in (r, [Respond r], i))
             | Inr databases \<Rightarrow>
                 if \<not> allowed_range databases name then
                   (let r = RespondError ErrUnknownDatabase ''Database not found'' StatusBadRequest
                    in (r, [Respond r], i))
                 else
                   (case created env of
                      None \<Rightarrow>
                        (let r = RespondError ErrConnectionError ''Failed to connect to database''
                                   StatusInternalServerError
                         in (r, [NewPool name, Respond r], i))
                    | Some p \<Rightarrow>
                        if \<not> ping_ok env then
                          (let r = RespondError ErrConnectionError
                                     ''Failed to verify database connection''
                                     StatusInternalServerError
                           in (r, [NewPool name, Ping p, Close p, Respond r], i))
                        else
                          (case SetPool i (Some p) name of
                             (i', oldPool) \<Rightarrow>
                               let closing =
                                     (case oldPool of
                                        None \<Rightarrow> []
                                      | Some old \<Rightarrow>
                                          GoClose old
                                          # select_done (close_takes env) (tie_done env)
                                              (closeTimeout QueryTimeout));
                                   r = RespondJSON name
                               in (r,
                                   [NewPool name, Ping p, Lock, SetPoolCalled p name]
                                   @ closing @ [Respond r, Unlock],
                                   i')))))"

text \<open>The time the close lock is held: the waits between \<open>Lock\<close> and \<open>Unlock\<close>.\<close>

fun held_from :: "bool \<Rightarrow> event list \<Rightarrow> nat" where
  "held_from h [] = 0"
| "held_from h (Lock # es) = held_from True es"
| "held_from h (Unlock # es) = held_from False es"
| "held_from h (Wait n # es) = (if h then n else 0) + held_from h es"
| "held_from h (e # es) = held_from h es"

definition lock_held :: "event list \<Rightarrow> nat" where
  "lock_held tr = held_from False tr"

fun run_switches :: "Duration \<Rightarrow> switch_env list \<Rightarrow> Introspector \<Rightarrow> Introspector" where
  \<comment> \<open>a sequence of switch requests, one after the other\<close>
  "run_switches QueryTimeout [] i = i"
| "run_switches QueryTimeout (env # envs) i =
     run_switches QueryTimeout envs (snd (snd (handleSwitchDatabase QueryTimeout env i)))"

text \<open>
  A request is accepted when it names a database, the listing succeeds and contains the
  name, the pool is created and the ping succeeds: the path on which \<open>SetPool\<close> is
  called.
\<close>

definition switch_accepted :: "switch_env \<Rightarrow> string \<Rightarrow> pgxpool \<Rightarrow> bool" where
  "switch_accepted env name p =
     (request env = Some name \<and> name \<noteq> []
      \<and> (case ListDatabases (server env) of Inl e \<Rightarrow> False | Inr dbs \<Rightarrow> name \<in> set dbs)
      \<and> created env = Some p \<and> ping_ok env)"

definition maintenance :: "string list" where
  \<comment> \<open>the names the list query excludes\<close>
  "maintenance = [''postgres'', ''template0'', ''template1'']"

text \<open>An example for the witnesses: a server with four databases, the engine on \<open>app\<close>.\<close>

definition example_env :: switch_env where
  "example_env =
     \<lparr>request = Some ''shop'',
      server = Some [\<lparr>datname = ''postgres'', datistemplate = False\<rparr>,
                     \<lparr>datname = ''template1'', datistemplate = True\<rparr>,
                     \<lparr>datname = ''shop'', datistemplate = False\<rparr>,
                     \<lparr>datname = ''app'', datistemplate = False\<rparr>],
      created = Some 2, ping_ok = True, close_takes = Some 1000000000, tie_done = True\<rparr>"

definition example_introspector :: Introspector where
  "example_introspector = NewIntrospector (Some 1) ''app'' (30 * Second)"

subsection \<open>Facts about the switch\<close>

lemma allowed_range_iff: "allowed_range dbs name = (name \<in> set dbs)"
  by (induction dbs) auto

lemma ListDatabases_query_set:
  "set (ListDatabases_query catalog) =
     {datname d | d. d \<in> set catalog \<and> \<not> datistemplate d
        \<and> datname d \<notin> set [''postgres'', ''template0'', ''template1'']}"
  by (auto simp: ListDatabases_query_def)

lemma ListDatabases_Inr:
  "ListDatabases srv = Inr dbs \<Longrightarrow> \<exists>catalog. srv = Some catalog \<and> dbs = ListDatabases_query catalog"
  by (auto simp: ListDatabases_def split: option.splits)

lemma handleSwitchDatabase_accepted:
  assumes "switch_accepted env name p"
  shows "handleSwitchDatabase qt env i =
     (RespondJSON name,
      [NewPool name, Ping p, Lock, SetPoolCalled p name]
      @ (case pool i of
           None \<Rightarrow> []
         | Some old \<Rightarrow>
             GoClose old # select_done (close_takes env) (tie_done env) (closeTimeout qt))
      @ [Respond (RespondJSON name), Unlock],
      i\<lparr>pool := Some p, dbName := name\<rparr>)"
  using assms
  by (auto simp: switch_accepted_def handleSwitchDatabase_def SetPool_def Let_def
        allowed_range_iff split: sum.splits)

lemma handleSwitchDatabase_refused:
  assumes "\<forall>name p. \<not> switch_accepted env name p"
  shows "snd (snd (handleSwitchDatabase qt env i)) = i"
    and "\<forall>p n. SetPoolCalled p n \<notin> set (fst (snd (handleSwitchDatabase qt env i)))"
    and "\<forall>n. fst (handleSwitchDatabase qt env i) \<noteq> RespondJSON n"
  using assms
  by (auto simp: switch_accepted_def handleSwitchDatabase_def Let_def allowed_range_iff
        split: sum.splits option.splits)

lemma example_listing: "ListDatabases (server example_env) = Inr [''app'', ''shop'']"
  by (simp add: example_env_def ListDatabases_def ListDatabases_query_def
        list_le_def list_less_def less_eq_char_def less_char_def)

lemma ListDatabases_excludes:
  assumes "ListDatabases srv = Inr dbs" "name \<in> set dbs"
  shows "name \<notin> set maintenance
    \<and> (\<exists>catalog d. srv = Some catalog \<and> d \<in> set catalog \<and> datname d = name
          \<and> \<not> datistemplate d)"
  using assms ListDatabases_Inr [OF assms(1)]
  by (auto simp: ListDatabases_query_set maintenance_def)

lemma switch_name_change:
  assumes "dbName (snd (snd (handleSwitchDatabase qt env i))) \<noteq> dbName i"
  shows "\<exists>p. switch_accepted env (dbName (snd (snd (handleSwitchDatabase qt env i)))) p"
proof (rule ccontr)
  assume n: "\<nexists>p. switch_accepted env (dbName (snd (snd (handleSwitchDatabase qt env i)))) p"
  show False
  proof (cases "\<exists>name p. switch_accepted env name p")
    case True
    then obtain name p where a: "switch_accepted env name p"
      by blast
    then have "dbName (snd (snd (handleSwitchDatabase qt env i))) = name"
      by (simp add: handleSwitchDatabase_accepted)
    with a n show False
      by blast
  next
    case False
    then have "snd (snd (handleSwitchDatabase qt env i)) = i"
      using handleSwitchDatabase_refused(1) by blast
    with assms show False
      by simp
  qed
qed

lemma switch_keeps_or_listed:
  "dbName (snd (snd (handleSwitchDatabase qt env i))) = dbName i
   \<or> dbName (snd (snd (handleSwitchDatabase qt env i))) \<notin> set maintenance"
proof (cases "dbName (snd (snd (handleSwitchDatabase qt env i))) = dbName i")
  case True
  then show ?thesis by simp
next
  case False
  then obtain p where "switch_accepted env (dbName (snd (snd (handleSwitchDatabase qt env i)))) p"
    using switch_name_change by blast
  then show ?thesis
    by (auto simp: switch_accepted_def split: sum.splits dest: ListDatabases_excludes)
qed

lemma run_switches_not_maintenance:
  "dbName i \<notin> set maintenance \<Longrightarrow> dbName (run_switches qt envs i) \<notin> set maintenance"
proof (induction envs arbitrary: i)
  case Nil
  then show ?case by simp
next
  case (Cons env envs)
  have "dbName (snd (snd (handleSwitchDatabase qt env i))) \<notin> set maintenance"
    using switch_keeps_or_listed [of qt env i] Cons.prems by auto
  then show ?case
    using Cons.IH by simp
qed

lemma run_switches_keeps_or_listed:
  "dbName (run_switches qt envs i) = dbName i
   \<or> dbName (run_switches qt envs i) \<notin> set maintenance"
proof (induction envs arbitrary: i)
  case Nil
  then show ?case by simp
next
  case (Cons env envs)
  let ?i1 = "snd (snd (handleSwitchDatabase qt env i))"
  show ?case
  proof (cases "dbName ?i1 = dbName i")
    case True
    with Cons.IH [of ?i1] show ?thesis by simp
  next
    case False
    then have "dbName ?i1 \<notin> set maintenance"
      using switch_keeps_or_listed [of qt env i] by simp
    then show ?thesis
      using run_switches_not_maintenance [of ?i1 qt envs] by simp
  qed
qed

subsection \<open>The claims about a switch that fails and about the database name\<close>

text \<open>
  Claim C5. For every switch request that reaches the candidate database and fails there
  (the pool cannot be created, or the ping fails), the introspector is left as it was:
  \<open>SetPool\<close> is not called, \<open>CurrentDatabase\<close> and the pool are those from before the
  request, and the response is the error \<open>CONNECTION_ERROR\<close>.
\<close>

theorem failed_switch_keeps_pool:
  assumes "request env = Some name" and "name \<noteq> []"
    and "ListDatabases (server env) = Inr dbs" and "name \<in> set dbs"
    and "created env = None \<or> \<not> ping_ok env"
  shows "snd (snd (handleSwitchDatabase qt env i)) = i
    \<and> CurrentDatabase (snd (snd (handleSwitchDatabase qt env i))) = CurrentDatabase i
    \<and> getPool (snd (snd (handleSwitchDatabase qt env i))) = getPool i
    \<and> (\<forall>p n. SetPoolCalled p n \<notin> set (fst (snd (handleSwitchDatabase qt env i))))
    \<and> fst (handleSwitchDatabase qt env i) =
        RespondError ErrConnectionError
          (if created env = None then ''Failed to connect to database''
           else ''Failed to verify database connection'')
          StatusInternalServerError"
proof -
  from assms(5) have "\<forall>n p. \<not> switch_accepted env n p"
    by (auto simp: switch_accepted_def)
  then have "snd (snd (handleSwitchDatabase qt env i)) = i"
      and "\<forall>p n. SetPoolCalled p n \<notin> set (fst (snd (handleSwitchDatabase qt env i)))"
    by (rule handleSwitchDatabase_refused)+
  moreover have "fst (handleSwitchDatabase qt env i) =
      RespondError ErrConnectionError
        (if created env = None then ''Failed to connect to database''
         else ''Failed to verify database connection'')
        StatusInternalServerError"
    using assms
    by (auto simp: handleSwitchDatabase_def Let_def allowed_range_iff split: option.splits)
  ultimately show ?thesis
    by simp
qed

theorem failed_switch_keeps_pool_witness:
  "request (example_env\<lparr>ping_ok := False\<rparr>) = Some ''shop''
   \<and> ListDatabases (server (example_env\<lparr>ping_ok := False\<rparr>)) = Inr [''app'', ''shop'']
   \<and> \<not> ping_ok (example_env\<lparr>ping_ok := False\<rparr>)
   \<and> CurrentDatabase (snd (snd (handleSwitchDatabase (30 * Second)
        (example_env\<lparr>ping_ok := False\<rparr>) example_introspector))) = ''app''
   \<and> fst (handleSwitchDatabase (30 * Second) (example_env\<lparr>ping_ok := False\<rparr>)
        example_introspector)
      = RespondError ErrConnectionError ''Failed to verify database connection''
          StatusInternalServerError"
proof -
  have l: "ListDatabases (server (example_env\<lparr>ping_ok := False\<rparr>)) = Inr [''app'', ''shop'']"
    using example_listing by simp
  have r: "request (example_env\<lparr>ping_ok := False\<rparr>) = Some ''shop''"
      "created (example_env\<lparr>ping_ok := False\<rparr>) \<noteq> None"
    by (simp_all add: example_env_def)
  show ?thesis
    using failed_switch_keeps_pool [OF r(1) _ l, of "30 * Second" example_introspector] l r
    by (simp add: CurrentDatabase_def example_introspector_def NewIntrospector_def)
qed

text \<open>
  Claim C10. The database name changes only to the name of the request, and only when
  that name is in the listing made for this request: it is then none of \<open>postgres\<close>,
  \<open>template0\<close>, \<open>template1\<close> and no template database of the catalog. A request that
  names a database outside the listing gets \<open>UNKNOWN_DATABASE\<close> and nothing else
  happens: no pool is created and the introspector is unchanged. So after any sequence of
  switch requests the current database is the initial one or none of the three.
\<close>

theorem switch_only_to_listed_database:
  assumes "handleSwitchDatabase qt env i = (r, tr, i')"
  shows "(dbName i' \<noteq> dbName i \<longrightarrow>
            request env = Some (dbName i')
            \<and> (\<exists>dbs. ListDatabases (server env) = Inr dbs \<and> dbName i' \<in> set dbs)
            \<and> dbName i' \<notin> set [''postgres'', ''template0'', ''template1'']
            \<and> (\<exists>catalog d. server env = Some catalog \<and> d \<in> set catalog
                  \<and> datname d = dbName i' \<and> \<not> datistemplate d))
    \<and> (\<forall>name dbs. request env = Some name \<and> name \<noteq> []
            \<and> ListDatabases (server env) = Inr dbs \<and> name \<notin> set dbs \<longrightarrow>
            r = RespondError ErrUnknownDatabase ''Database not found'' StatusBadRequest
            \<and> tr = [Respond r] \<and> i' = i)
    \<and> (\<forall>envs. CurrentDatabase (run_switches qt envs i) = CurrentDatabase i
            \<or> CurrentDatabase (run_switches qt envs i)
                 \<notin> set [''postgres'', ''template0'', ''template1''])"
proof (intro conjI impI allI)
  assume c: "dbName i' \<noteq> dbName i"
  from assms have i': "i' = snd (snd (handleSwitchDatabase qt env i))"
    by simp
  with c obtain p where a: "switch_accepted env (dbName i') p"
    using switch_name_change [of qt env i] by auto
  then show "request env = Some (dbName i')"
    by (simp add: switch_accepted_def)
  from a obtain dbs where l: "ListDatabases (server env) = Inr dbs" "dbName i' \<in> set dbs"
    by (auto simp: switch_accepted_def split: sum.splits)
  then show "\<exists>dbs. ListDatabases (server env) = Inr dbs \<and> dbName i' \<in> set dbs"
    by blast
  from ListDatabases_excludes [OF l]
  show "dbName i' \<notin> set [''postgres'', ''template0'', ''template1'']"
    and "\<exists>catalog d. server env = Some catalog \<and> d \<in> set catalog
          \<and> datname d = dbName i' \<and> \<not> datistemplate d"
    by (auto simp: maintenance_def)
next
  fix name dbs
  assume u: "request env = Some name \<and> name \<noteq> []
      \<and> ListDatabases (server env) = Inr dbs \<and> name \<notin> set dbs"
  then have "handleSwitchDatabase qt env i =
      (RespondError ErrUnknownDatabase ''Database not found'' StatusBadRequest,
       [Respond (RespondError ErrUnknownDatabase ''Database not found'' StatusBadRequest)], i)"
    by (simp add: handleSwitchDatabase_def Let_def allowed_range_iff)
  with assms show "r = RespondError ErrUnknownDatabase ''Database not found'' StatusBadRequest"
    and "tr = [Respond r]" and "i' = i"
    by auto
next
  fix envs
  show "CurrentDatabase (run_switches qt envs i) = CurrentDatabase i
      \<or> CurrentDatabase (run_switches qt envs i) \<notin> set [''postgres'', ''template0'', ''template1'']"
    using run_switches_keeps_or_listed [of qt envs i]
    by (simp add: CurrentDatabase_def maintenance_def)
qed


theorem switch_only_to_listed_database_witness:
  "handleSwitchDatabase (30 * Second) (example_env\<lparr>request := Some ''postgres''\<rparr>)
       example_introspector
     = (RespondError ErrUnknownDatabase ''Database not found'' StatusBadRequest,
        [Respond (RespondError ErrUnknownDatabase ''Database not found'' StatusBadRequest)],
        example_introspector)
   \<and> ListDatabases (server (example_env\<lparr>request := Some ''postgres''\<rparr>)) = Inr [''app'', ''shop'']
   \<and> CurrentDatabase (snd (snd (handleSwitchDatabase (30 * Second) example_env
        example_introspector))) = ''shop''"
proof -
  let ?env = "example_env\<lparr>request := Some ''postgres''\<rparr>"
  obtain r tr i' where h: "handleSwitchDatabase (30 * Second) ?env example_introspector = (r, tr, i')"
    by (cases "handleSwitchDatabase (30 * Second) ?env example_introspector")
  have l: "ListDatabases (server ?env) = Inr [''app'', ''shop'']"
    using example_listing by simp
  have q: "request ?env = Some ''postgres''"
    by simp
  have "request ?env = Some ''postgres'' \<and> ''postgres'' \<noteq> []
      \<and> ListDatabases (server ?env) = Inr [''app'', ''shop'']
      \<and> ''postgres'' \<notin> set [''app'', ''shop'']"
    using l q by simp
  then have "r = RespondError ErrUnknownDatabase ''Database not found'' StatusBadRequest
      \<and> tr = [Respond r] \<and> i' = example_introspector"
    by (rule switch_only_to_listed_database
          [OF h, THEN conjunct2, THEN conjunct1, rule_format])
  with h have 1: "handleSwitchDatabase (30 * Second) ?env example_introspector
     = (RespondError ErrUnknownDatabase ''Database not found'' StatusBadRequest,
        [Respond (RespondError ErrUnknownDatabase ''Database not found'' StatusBadRequest)],
        example_introspector)"
    by simp
  have "switch_accepted example_env ''shop'' 2"
    using example_listing by (simp add: switch_accepted_def) (simp add: example_env_def)
  then have 2: "CurrentDatabase (snd (snd (handleSwitchDatabase (30 * Second) example_env
        example_introspector))) = ''shop''"
    by (simp add: handleSwitchDatabase_accepted CurrentDatabase_def)
  from 1 l 2 show ?thesis
    by simp
qed

subsection \<open>Facts about durations and the close of the replaced pool\<close>

lemma digit_values:
  "digit_value CHR ''0'' = Some 0" "digit_value CHR ''5'' = Some 5"
  by (simp_all add: digit_value_def less_eq_char_def byte_def)

lemma Atoi_example: "Atoi ''5000000000'' = Some 5000000000"
  by (simp add: Atoi_def digit_values)

lemma Load_QueryTimeout_example: "Load_QueryTimeout ''5000000000'' = 5000000000 * Second"
  by (simp add: Load_QueryTimeout_def getDurationEnv_def Atoi_example Second_def)

lemma Load_QueryTimeout_default: "Load_QueryTimeout [] = 30 * Second"
  by (simp add: Load_QueryTimeout_def getDurationEnv_def)

lemma closeTimeout_exact:
  assumes "- (2 ^ 62) \<le> sint qt" "sint qt < 2 ^ 62"
  shows "sint (closeTimeout qt) = max (2 * sint qt) 5000000000"
proof -
  have "sint (qt * 2) = signed_take_bit 63 (sint qt * 2)"
    by (simp add: sint_word_ariths)
  also have "\<dots> = sint qt * 2"
    using assms by (intro signed_take_bit_int_eq_self) auto
  finally have "sint (qt * 2) = 2 * sint qt"
    by simp
  then show ?thesis
    by (auto simp: closeTimeout_def Let_def Second_def word_sless_alt)
qed

lemma closeTimeout_at_least: "5000000000 \<le> sint (closeTimeout qt)"
  by (auto simp: closeTimeout_def Let_def Second_def word_sless_alt)


lemma select_done_wait:
  "select_done takes tie timeout =
     (let bound = nat (sint timeout);
          done = (case takes of None \<Rightarrow> False | Some d \<Rightarrow> d < bound \<or> (d = bound \<and> tie))
      in [Wait (case takes of None \<Rightarrow> bound | Some d \<Rightarrow> min d bound),
          if done then LogInfo else LogWarn timeout])"
  by (auto simp: select_done_def Let_def split: option.splits)

lemma held_from_select:
  "held_from True (select_done takes tie timeout @ es) =
     (case takes of None \<Rightarrow> nat (sint timeout) | Some d \<Rightarrow> min d (nat (sint timeout)))
     + held_from True es"
  by (simp add: select_done_wait Let_def)

lemma switch_trace_replacing:
  assumes "switch_accepted env name p" "pool i = Some old"
  shows "fst (snd (handleSwitchDatabase qt env i)) =
     [NewPool name, Ping p, Lock, SetPoolCalled p name, GoClose old]
     @ select_done (close_takes env) (tie_done env) (closeTimeout qt)
     @ [Respond (RespondJSON name), Unlock]"
  using assms by (simp add: handleSwitchDatabase_accepted)

lemma switch_closes_replaced_pool_once:
  assumes "switch_accepted env name p" "pool i = Some old"
  shows "count_list (fst (snd (handleSwitchDatabase qt env i))) (GoClose old) = 1"
    and "Close old \<notin> set (fst (snd (handleSwitchDatabase qt env i)))"
    and "\<forall>q. q \<noteq> old \<longrightarrow> GoClose q \<notin> set (fst (snd (handleSwitchDatabase qt env i)))"
  using assms
  by (auto simp: switch_trace_replacing select_done_wait Let_def)

lemma switch_wait_bounded:
  assumes "switch_accepted env name p" "pool i = Some old"
  shows "\<forall>n. Wait n \<in> set (fst (snd (handleSwitchDatabase qt env i))) \<longrightarrow>
           n \<le> nat (sint (closeTimeout qt))
           \<and> n = (case close_takes env of
                    None \<Rightarrow> nat (sint (closeTimeout qt))
                  | Some d \<Rightarrow> min d (nat (sint (closeTimeout qt))))"
  using assms
  by (auto simp: switch_trace_replacing select_done_wait Let_def split: option.splits)

lemma switch_abandons_slow_close:
  assumes "switch_accepted env name p" "pool i = Some old"
    and "close_takes env = None \<or> (\<exists>d. close_takes env = Some d \<and> nat (sint (closeTimeout qt)) < d)"
  shows "fst (snd (handleSwitchDatabase qt env i)) =
     [NewPool name, Ping p, Lock, SetPoolCalled p name, GoClose old,
      Wait (nat (sint (closeTimeout qt))), LogWarn (closeTimeout qt),
      Respond (RespondJSON name), Unlock]"
  using assms
  by (auto simp: switch_trace_replacing select_done_def Let_def)

lemma lock_held_replacing:
  assumes "switch_accepted env name p" "pool i = Some old"
  shows "lock_held (fst (snd (handleSwitchDatabase qt env i))) =
     (case close_takes env of
        None \<Rightarrow> nat (sint (closeTimeout qt))
      | Some d \<Rightarrow> min d (nat (sint (closeTimeout qt))))"
  by (simp add: switch_trace_replacing [OF assms] lock_held_def held_from_select)

subsection \<open>The claims about the close of the replaced pool\<close>

text \<open>
  Claim C7, at the input where the code leaves it. With \<open>QUERY_TIMEOUT=5000000000\<close> the
  configured timeout is \<open>5\<cdot>10\<^sup>1\<^sup>8\<close> nanoseconds; doubling it wraps around in 64 bits to a
  negative value, so the bound becomes 5 seconds, where the maximum of twice the timeout
  and 5 seconds is \<open>10\<^sup>1\<^sup>9\<close> nanoseconds: a close that takes 6 seconds is given up after
  5. The other parts of the claim hold on every accepted switch that replaces a pool
  (\<open>switch_closes_replaced_pool_once\<close>, \<open>switch_wait_bounded\<close>,
  \<open>switch_abandons_slow_close\<close>), and the bound is the maximum whenever twice the
  timeout fits in 64 bits (\<open>closeTimeout_exact\<close>).
\<close>

theorem close_bound_wraps:
  "Load_QueryTimeout ''5000000000'' = 5000000000 * Second
   \<and> closeTimeout (Load_QueryTimeout ''5000000000'') = 5 * Second
   \<and> sint (closeTimeout (Load_QueryTimeout ''5000000000'')) = 5000000000
   \<and> max (2 * sint (Load_QueryTimeout ''5000000000'')) (sint (5 * Second))
       = 10000000000000000000
   \<and> fst (snd (handleSwitchDatabase (Load_QueryTimeout ''5000000000'')
         (example_env\<lparr>close_takes := Some 6000000000\<rparr>) example_introspector))
       = [NewPool ''shop'', Ping 2, Lock, SetPoolCalled 2 ''shop'', GoClose 1,
          Wait 5000000000, LogWarn (5 * Second), Respond (RespondJSON ''shop''), Unlock]"
proof -
  have c: "closeTimeout (5000000000 * Second) = 5 * Second"
    by (simp add: closeTimeout_def Second_def word_sless_alt)
  have a: "switch_accepted (example_env\<lparr>close_takes := Some 6000000000\<rparr>) ''shop'' 2"
    using example_listing by (simp add: switch_accepted_def) (simp add: example_env_def)
  have p: "pool example_introspector = Some 1"
    by (simp add: example_introspector_def NewIntrospector_def)
  have "fst (snd (handleSwitchDatabase (5000000000 * Second)
         (example_env\<lparr>close_takes := Some 6000000000\<rparr>) example_introspector))
       = [NewPool ''shop'', Ping 2, Lock, SetPoolCalled 2 ''shop'', GoClose 1,
          Wait 5000000000, LogWarn (5 * Second), Respond (RespondJSON ''shop''), Unlock]"
    by (simp only: switch_trace_replacing [OF a p] c)
       (simp add: select_done_def example_env_def Second_def)
  then show ?thesis
    by (simp add: Load_QueryTimeout_example c) (simp add: Second_def)
qed

text \<open>
  Claim C8, as amended. On a switch that replaces a pool the close lock is taken after
  the new pool has been created and pinged, and is released by the deferred unlock when
  the handler returns: it is held across the swap, the start of the close and the whole
  bounded wait. The time it is held is the smaller of the duration of the close and the
  bound of the wait as the handler computes it, \<open>closeTimeout\<close>: the entire close when
  the close ends within the bound, the bound (and less than the close) when it does not.
  The bound is the query timeout doubled in 64 bits and raised to 5 seconds when that is
  less; it is never below 5 seconds, and it is the maximum of twice the query timeout and
  5 seconds whenever the doubling does not wrap around.
\<close>

theorem close_lock_held_through_wait:
  assumes "request env = Some name" and "name \<noteq> []"
    and "ListDatabases (server env) = Inr dbs" and "name \<in> set dbs"
    and "created env = Some p" and "ping_ok env" and "pool i = Some old"
  shows "fst (snd (handleSwitchDatabase qt env i)) =
       [NewPool name, Ping p, Lock, SetPoolCalled p name, GoClose old]
       @ select_done (close_takes env) (tie_done env) (closeTimeout qt)
       @ [Respond (RespondJSON name), Unlock]
    \<and> lock_held (fst (snd (handleSwitchDatabase qt env i))) =
        (case close_takes env of
           None \<Rightarrow> nat (sint (closeTimeout qt))
         | Some d \<Rightarrow> min d (nat (sint (closeTimeout qt))))
    \<and> lock_held (fst (snd (handleSwitchDatabase qt env i))) \<le> nat (sint (closeTimeout qt))
    \<and> (\<forall>d. close_takes env = Some d \<and> d \<le> nat (sint (closeTimeout qt)) \<longrightarrow>
          lock_held (fst (snd (handleSwitchDatabase qt env i))) = d)
    \<and> (\<forall>d. close_takes env = Some d \<and> nat (sint (closeTimeout qt)) < d \<longrightarrow>
          lock_held (fst (snd (handleSwitchDatabase qt env i))) < d)
    \<and> 5000000000 \<le> int (nat (sint (closeTimeout qt)))
    \<and> (- (2 ^ 62) \<le> sint qt \<and> sint qt < 2 ^ 62 \<longrightarrow>
          int (nat (sint (closeTimeout qt))) = max (2 * sint qt) 5000000000)"
proof -
  from assms(1-6) have a: "switch_accepted env name p"
    by (simp add: switch_accepted_def)
  have t: "fst (snd (handleSwitchDatabase qt env i)) =
       [NewPool name, Ping p, Lock, SetPoolCalled p name, GoClose old]
       @ select_done (close_takes env) (tie_done env) (closeTimeout qt)
       @ [Respond (RespondJSON name), Unlock]"
    by (rule switch_trace_replacing [OF a assms(7)])
  have h: "lock_held (fst (snd (handleSwitchDatabase qt env i))) =
        (case close_takes env of
           None \<Rightarrow> nat (sint (closeTimeout qt))
         | Some d \<Rightarrow> min d (nat (sint (closeTimeout qt))))"
    by (rule lock_held_replacing [OF a assms(7)])
  have "lock_held (fst (snd (handleSwitchDatabase qt env i))) \<le> nat (sint (closeTimeout qt))"
    by (simp add: h split: option.splits)
  moreover have "close_takes env = Some d \<and> d \<le> nat (sint (closeTimeout qt)) \<longrightarrow>
      lock_held (fst (snd (handleSwitchDatabase qt env i))) = d" for d
    by (simp add: h)
  moreover have "close_takes env = Some d \<and> nat (sint (closeTimeout qt)) < d \<longrightarrow>
      lock_held (fst (snd (handleSwitchDatabase qt env i))) < d" for d
    by (simp add: h)
  moreover have "5000000000 \<le> int (nat (sint (closeTimeout qt)))"
    using closeTimeout_at_least [of qt] by simp
  moreover have "- (2 ^ 62) \<le> sint qt \<and> sint qt < 2 ^ 62 \<longrightarrow>
      int (nat (sint (closeTimeout qt))) = max (2 * sint qt) 5000000000"
    using closeTimeout_exact [of qt] closeTimeout_at_least [of qt] by auto
  ultimately show ?thesis
    using t h by blast
qed

theorem close_lock_held_through_wait_witness:
  "request example_env = Some ''shop'' \<and> ListDatabases (server example_env) = Inr [''app'', ''shop'']
   \<and> created example_env = Some 2 \<and> ping_ok example_env \<and> pool example_introspector = Some 1
   \<and> close_takes example_env = Some 1000000000
   \<and> lock_held (fst (snd (handleSwitchDatabase (30 * Second) example_env example_introspector)))
       = min 1000000000 (nat (sint (closeTimeout (30 * Second))))
   \<and> - (2 ^ 62) \<le> sint (30 * Second :: Duration) \<and> sint (30 * Second :: Duration) < 2 ^ 62
   \<and> int (nat (sint (closeTimeout (30 * Second)))) = max (2 * sint (30 * Second :: Duration)) 5000000000
   \<and> 1000000000 \<le> nat (sint (closeTimeout (30 * Second)))
   \<and> lock_held (fst (snd (handleSwitchDatabase (30 * Second) example_env example_introspector)))
       = 1000000000"
proof -
  have e: "request example_env = Some ''shop''" "created example_env = Some 2"
      "ping_ok example_env" "close_takes example_env = Some 1000000000"
    by (simp_all add: example_env_def)
  have p: "pool example_introspector = Some 1"
    by (simp add: example_introspector_def NewIntrospector_def)
  have n: "''shop'' \<noteq> []" "''shop'' \<in> set [''app'', ''shop'']"
    by simp_all
  have s: "sint (30 * Second :: Duration) = 30000000000"
    by (simp add: Second_def)
  note w = close_lock_held_through_wait [OF e(1) n(1) example_listing n(2) e(2) e(3) p,
      of "30 * Second"]
  have h: "lock_held (fst (snd (handleSwitchDatabase (30 * Second) example_env
        example_introspector))) =
      (case close_takes example_env of
         None \<Rightarrow> nat (sint (closeTimeout (30 * Second)))
       | Some d \<Rightarrow> min d (nat (sint (closeTimeout (30 * Second)))))"
    by (rule w [THEN conjunct2, THEN conjunct1])
  have b: "int (nat (sint (closeTimeout (30 * Second)))) =
      max (2 * sint (30 * Second :: Duration)) 5000000000"
    by (rule w [THEN conjunct2, THEN conjunct2, THEN conjunct2, THEN conjunct2,
          THEN conjunct2, THEN conjunct2, rule_format]) (simp add: s)
  from b s have g: "1000000000 \<le> nat (sint (closeTimeout (30 * Second)))"
    by arith
  have "lock_held (fst (snd (handleSwitchDatabase (30 * Second) example_env
        example_introspector))) = 1000000000"
    by (rule w [THEN conjunct2, THEN conjunct2, THEN conjunct2, THEN conjunct1, rule_format])
       (simp add: e(4) g)
  then show ?thesis
    using e p example_listing h b g by (simp add: s)
qed

text \<open>
  The counterexample to claim C8 as it was stated: the close of the old pool takes one
  second, the bound is 60 seconds, and the lock is held for the whole second; the unlock
  is the last event, after the wait and the response.
\<close>

theorem close_lock_counterexample:
  "close_takes example_env = Some 1000000000
   \<and> fst (snd (handleSwitchDatabase (30 * Second) example_env example_introspector)) =
       [NewPool ''shop'', Ping 2, Lock, SetPoolCalled 2 ''shop'', GoClose 1,
        Wait 1000000000, LogInfo, Respond (RespondJSON ''shop''), Unlock]
   \<and> lock_held (fst (snd (handleSwitchDatabase (30 * Second) example_env
        example_introspector))) = 1000000000"
proof -
  have a: "switch_accepted example_env ''shop'' 2"
    using example_listing by (simp add: switch_accepted_def) (simp add: example_env_def)
  have p: "pool example_introspector = Some 1"
    by (simp add: example_introspector_def NewIntrospector_def)
  have c: "closeTimeout (30 * Second) = 60 * Second"
    by (simp add: closeTimeout_def Second_def word_sless_alt)
  have t: "fst (snd (handleSwitchDatabase (30 * Second) example_env example_introspector)) =
       [NewPool ''shop'', Ping 2, Lock, SetPoolCalled 2 ''shop'', GoClose 1,
        Wait 1000000000, LogInfo, Respond (RespondJSON ''shop''), Unlock]"
    by (simp only: switch_trace_replacing [OF a p] c)
       (simp add: select_done_def example_env_def Second_def)
  show ?thesis
    by (simp only: t) (simp add: lock_held_def example_env_def)
qed

subsection \<open>The claim about \<open>withTimeout\<close>\<close>

lemma sint_max_word:
  "sint (w :: 64 word) = 9223372036854775807 \<Longrightarrow> w = 9223372036854775807"
proof -
  assume a: "sint w = 9223372036854775807"
  have "w = of_int (sint w)"
    by simp
  also have "\<dots> = of_int 9223372036854775807"
    by (simp only: a)
  finally show ?thesis
    by simp
qed

lemma seconds_not_max: "sint (x * Second) \<noteq> 9223372036854775807"
proof
  assume "sint (x * Second) = 9223372036854775807"
  then have "x * 1000000000 = (9223372036854775807 :: 64 word)"
    unfolding Second_def by (rule sint_max_word)
  moreover have "even (x * 1000000000 :: 64 word)"
    by simp
  moreover have "odd (9223372036854775807 :: 64 word)"
    by simp
  ultimately show False
    by simp
qed

lemma Load_QueryTimeout_not_max: "sint (Load_QueryTimeout val) \<noteq> 9223372036854775807"
  by (auto simp: Load_QueryTimeout_def getDurationEnv_def seconds_not_max split: option.splits)

lemma sint_Until:
  "sint (Until now t) =
     (if t - now > 9223372036854775807 then 9223372036854775807
      else if t - now < - 9223372036854775808 then - 9223372036854775808
      else t - now)"
proof -
  have "sint (word_of_int d :: 64 word) = d"
    if "- 9223372036854775808 \<le> d" "d \<le> 9223372036854775807" for d :: int
  proof -
    have "sint (word_of_int d :: 64 word) = signed_take_bit 63 d"
      by (simp add: sint_sbintrunc')
    also have "\<dots> = d"
      using that by (intro signed_take_bit_int_eq_self) auto
    finally show ?thesis .
  qed
  from this [of "t - now"] show ?thesis
    by (auto simp: Until_def Let_def)
qed

lemma Until_le_iff:
  assumes "sint qt \<noteq> 9223372036854775807"
  shows "(Until now t \<le>s qt) = (t - now \<le> sint qt)"
proof -
  have "sint qt < 9223372036854775808" "- 9223372036854775808 \<le> sint qt"
    using sint_lt [of qt] sint_ge [of qt] by simp_all
  with assms show ?thesis
    by (auto simp: word_sle_eq sint_Until)
qed

lemma withTimeout_deadline:
  assumes "sint (queryTimeout i) \<noteq> 9223372036854775807" and "now \<le> now'"
  shows "deadline (withTimeout i now now' parent) =
     (case deadline parent of
        None \<Rightarrow> Some (now' + sint (queryTimeout i))
      | Some d \<Rightarrow> Some (min d (now' + sint (queryTimeout i))))"
  using assms(2)
  by (auto simp: withTimeout_def Until_le_iff [OF assms(1)] WithTimeout_def WithDeadline_def
        WithCancel_def Let_def min_def split: option.splits)

text \<open>
  Claim C6. For every parent context and every configured query timeout,
  \<open>withTimeout\<close> never extends a deadline: the deadline of the result is the minimum of
  the parent's deadline and the instant of the call plus the timeout. If the parent's
  remaining time is at most the timeout the parent's deadline is kept unchanged;
  otherwise, and when the parent has no deadline, the deadline is that instant plus the
  timeout. The instant is the one at which the timeout is applied (\<open>now'\<close>); the test
  on the remaining time reads the clock no later (\<open>now\<close>).
\<close>

theorem withTimeout_never_extends:
  assumes "queryTimeout i = Load_QueryTimeout val" and "now \<le> now'"
  shows "deadline (withTimeout i now now' parent) =
       (case deadline parent of
          None \<Rightarrow> Some (now' + sint (queryTimeout i))
        | Some d \<Rightarrow> Some (min d (now' + sint (queryTimeout i))))
    \<and> (\<forall>d. deadline parent = Some d \<longrightarrow>
          (\<exists>d'. deadline (withTimeout i now now' parent) = Some d' \<and> d' \<le> d))
    \<and> (\<forall>d. deadline parent = Some d \<and> d - now' \<le> sint (queryTimeout i) \<longrightarrow>
          deadline (withTimeout i now now' parent) = Some d)
    \<and> (\<forall>d. deadline parent = Some d \<and> sint (queryTimeout i) < d - now' \<longrightarrow>
          deadline (withTimeout i now now' parent) = Some (now' + sint (queryTimeout i)))"
proof -
  have "sint (queryTimeout i) \<noteq> 9223372036854775807"
    by (simp add: assms(1) Load_QueryTimeout_not_max)
  from withTimeout_deadline [OF this assms(2)] show ?thesis
    by (auto simp: min_def)
qed

theorem withTimeout_never_extends_witness:
  "queryTimeout example_introspector = Load_QueryTimeout [] \<and> (100 :: Time) \<le> 101
   \<and> deadline (withTimeout example_introspector 100 101 \<lparr>deadline = Some 5000\<rparr>) = Some 5000
   \<and> deadline (withTimeout example_introspector 100 101 \<lparr>deadline = Some 50000000000\<rparr>)
       = Some 30000000101
   \<and> deadline (withTimeout example_introspector 100 101 \<lparr>deadline = None\<rparr>)
       = Some 30000000101"
proof -
  have q: "queryTimeout example_introspector = Load_QueryTimeout []"
    by (simp add: example_introspector_def NewIntrospector_def Load_QueryTimeout_default)
  have s: "sint (Load_QueryTimeout []) = 30000000000"
    by (simp add: Load_QueryTimeout_default Second_def)
  have n: "(100 :: Time) \<le> 101"
    by simp
  show ?thesis
    using withTimeout_never_extends [OF q n, of "\<lparr>deadline = Some 5000\<rparr>"]
      withTimeout_never_extends [OF q n, of "\<lparr>deadline = Some 50000000000\<rparr>"]
      withTimeout_never_extends [OF q n, of "\<lparr>deadline = None\<rparr>"] q
    by (simp add: s)
qed

end
